theory Spec2Isabelle
  imports Complex_Main "HOL-Library.Multiset"
begin

section \<open>Data model (types.ts and the state held by App.tsx)\<close>

text \<open>
  JavaScript numbers are modelled as \<open>int\<close> where the program only ever stores integers
  (ids, scores, indices, seconds of the focus timer) and as \<open>real\<close> where it stores
  fractions (playback time, ball coordinates, speeds).  Strings are \<open>string\<close>.
\<close>

datatype RepeatMode = RepeatOff | RepeatAll | RepeatOne

datatype NowPlayingMode = VolumeMode | RatingMode

record ViewFrame =
  view_id :: string
  activeIndex :: int

text \<open>
  Every song and playlist held in memory was read from its table and carries its key, so
  the key is not optional here (the source writes \<open>song.id!\<close>).  A blob is a handle; a
  stored record whose \<open>fileBlob\<close> is missing has \<open>None\<close>.
\<close>

record Song =
  song_id :: int
  fileBlob :: "nat option"
  title :: string
  artist :: string
  album :: string
  song_duration :: real
  rating :: "int option"

record Playlist =
  playlist_id :: int
  playlist_name :: string
  songIds :: "int list"

datatype GamePhase = Idle | Playing | Paused | GameOver

record Ball =
  ball_x :: real
  ball_y :: real
  ball_dx :: real
  ball_dy :: real

record BounceGameState =
  gameState :: GamePhase
  score :: int
  highScore :: int
  paddleAngle :: real
  ball :: Ball
  ballSpeed :: real

datatype SessionType = Work | ShortBreak | LongBreak | IdleSession

record FocusSettings =
  workMinutes :: int
  shortBreakMinutes :: int
  longBreakMinutes :: int
  longBreakInterval :: int
  tickingSound :: bool
  fullscreenBreak :: bool
  autoStart :: bool

record FocusState =
  isActive :: bool
  sessionType :: SessionType
  timeRemaining :: int
  workIntervalsInCycle :: int

record FocusSession =
  durationMinutes :: int
  session_type :: SessionType

text \<open>
  The state of the \<open>usePlayback\<close> hook: its three React state cells, the \<open>lastUrl\<close> ref and
  the part of the audio element the hook reads and writes (\<open>src\<close>, \<open>currentTime\<close>,
  \<open>paused\<close>).  A detached source (\<open>audio.src = ''\<close>) is \<open>None\<close>.
\<close>

record Playback =
  isPlaying :: bool
  currentTime :: real
  duration :: real
  lastUrl :: "nat option"
  audio_src :: "nat option"
  audio_currentTime :: real
  audio_paused :: bool

record IpodColors =
  body_color :: string
  wheel_color :: string

text \<open>
  Work that the program has started and that finishes in a later task of the event loop:
  the tail of an \<open>async\<close> function after its \<open>await\<close>s and the callbacks given to
  \<open>setTimeout\<close>.
\<close>

datatype Continuation =
    ResetStatsFinish
  | ClearLibraryKeys
  | ClearLibraryGoBack
  | ClearLibraryToLoad

record App =
  songs :: "Song list"
  navigationStack :: "ViewFrame list"
  currentTrackId :: "int option"
  playQueue :: "int list"
  shuffleMode :: bool
  repeatMode :: RepeatMode
  volume :: real
  nowPlayingMode :: NowPlayingMode
  searchQuery :: string
  allPlaylists :: "Playlist list option"
  bounceGame :: BounceGameState
  bounceGameStateRef :: BounceGameState
  focusSettings :: "FocusSettings option"
  focusState :: FocusState
  focusSessions :: "FocusSession list"
  ipodColors :: IpodColors
  playback :: Playback
  pending :: "Continuation list"

section \<open>JavaScript array and string helpers\<close>

text \<open>\<open>Array.prototype.indexOf\<close>: the first position of the element, \<open>None\<close> for \<open>-1\<close>.\<close>

fun indexOf :: "'a list \<Rightarrow> 'a \<Rightarrow> nat option" where
  "indexOf [] a = None"
| "indexOf (b # bs) a =
     (if b = a then Some 0
      else (case indexOf bs a of None \<Rightarrow> None | Some i \<Rightarrow> Some (Suc i)))"

text \<open>\<open>s.slice(0, -k)\<close> for \<open>k > 0\<close>: all but the last \<open>k\<close> elements, empty when there are not more than \<open>k\<close>.\<close>

definition slice_to_minus :: "nat \<Rightarrow> 'a list \<Rightarrow> 'a list" where
  "slice_to_minus k s = take (length s - k) s"

definition startsWith :: "string \<Rightarrow> string \<Rightarrow> bool" where
  "startsWith s p = (take (length p) s = p)"

text \<open>\<open>s.split(c)\<close>: the segments between the occurrences of \<open>c\<close>; \<open>acc\<close> is the segment being read, reversed.\<close>

fun split_acc :: "char \<Rightarrow> string \<Rightarrow> string \<Rightarrow> string list" where
  "split_acc c acc [] = [rev acc]"
| "split_acc c acc (d # ds) =
     (if d = c then rev acc # split_acc c [] ds else split_acc c (d # acc) ds)"

definition js_split :: "string \<Rightarrow> char \<Rightarrow> string list" where
  "js_split s c = split_acc c [] s"

text \<open>\<open>viewId.includes('/') ? viewId.split('/')[1] : undefined\<close>\<close>

definition viewParam :: "string \<Rightarrow> string option" where
  "viewParam viewId =
     (if CHR ''/'' \<in> set viewId
      then (case js_split viewId CHR ''/'' of a # b # rest \<Rightarrow> Some b | _ \<Rightarrow> None)
      else None)"

text \<open>\<open>viewId.split('/')[1]\<close> where the caller has checked that the id has a \<open>/\<close>.\<close>

definition secondSegment :: "string \<Rightarrow> string" where
  "secondSegment viewId = (case viewParam viewId of Some b \<Rightarrow> b | None \<Rightarrow> ''undefined'')"

definition is_space :: "char \<Rightarrow> bool" where
  "is_space c = (let n = (of_char c :: nat) in n = 32 \<or> (9 \<le> n \<and> n \<le> 13))"

definition is_digit :: "char \<Rightarrow> bool" where
  "is_digit c = (let n = (of_char c :: nat) in 48 \<le> n \<and> n \<le> 57)"

definition digit_value :: "char \<Rightarrow> int" where
  "digit_value c = int (of_char c) - 48"

text \<open>\<open>parseInt(s, 10)\<close>: leading white space, a sign, then the longest run of digits; \<open>None\<close> is \<open>NaN\<close>.\<close>

definition parseInt :: "string \<Rightarrow> int option" where
  "parseInt s =
     (let s1 = dropWhile is_space s;
          negative = (case s1 of c # r \<Rightarrow> c = CHR ''-'' | [] \<Rightarrow> False);
          s2 = (case s1 of c # r \<Rightarrow> (if c = CHR ''-'' \<or> c = CHR ''+'' then r else s1) | [] \<Rightarrow> s1);
          ds = takeWhile is_digit s2;
          n = foldl (\<lambda>m c. 10 * m + digit_value c) 0 ds
      in if ds = [] then None else Some (if negative then - n else n))"

fun show_nat :: "nat \<Rightarrow> string" where
  "show_nat n =
     (if n < 10 then [char_of (48 + n)]
      else show_nat (n div 10) @ [char_of (48 + n mod 10)])"

definition show_int :: "int \<Rightarrow> string" where
  "show_int i = (if i < 0 then CHR ''-'' # show_nat (nat (- i)) else show_nat (nat i))"

text \<open>Comparison of strings by code units, which is what \<open>Array.prototype.sort\<close> uses without a comparator.\<close>

fun str_less :: "string \<Rightarrow> string \<Rightarrow> bool" where
  "str_less [] [] = False"
| "str_less [] (d # ds) = True"
| "str_less (c # cs) [] = False"
| "str_less (c # cs) (d # ds) =
     ((of_char c :: nat) < of_char d \<or> (c = d \<and> str_less cs ds))"

definition defaultCompare :: "string \<Rightarrow> string \<Rightarrow> int" where
  "defaultCompare s t = (if str_less s t then - 1 else if str_less t s then 1 else 0)"

text \<open>
  \<open>Array.prototype.sort\<close> is stable; it is modelled by insertion from the right, which
  keeps elements that compare equal in their order.
\<close>

fun insert_by :: "('a \<Rightarrow> 'a \<Rightarrow> int) \<Rightarrow> 'a \<Rightarrow> 'a list \<Rightarrow> 'a list" where
  "insert_by cmp v [] = [v]"
| "insert_by cmp v (w # ws) =
     (if cmp v w \<le> 0 then v # w # ws else w # insert_by cmp v ws)"

definition js_sort :: "('a \<Rightarrow> 'a \<Rightarrow> int) \<Rightarrow> 'a list \<Rightarrow> 'a list" where
  "js_sort cmp vs = foldr (insert_by cmp) vs []"

text \<open>\<open>[...new Set(xs)]\<close>: the elements in order of first occurrence.\<close>

definition uniq :: "'a list \<Rightarrow> 'a list" where
  "uniq vs = rev (remdups (rev vs))"

text \<open>\<open>toLowerCase\<close>, \<open>trim\<close> and \<open>String.prototype.includes\<close> on ASCII text.\<close>

definition lower_char :: "char \<Rightarrow> char" where
  "lower_char c =
     (let n = (of_char c :: nat) in if 65 \<le> n \<and> n \<le> 90 then char_of (n + 32) else c)"

definition toLowerCase :: "string \<Rightarrow> string" where
  "toLowerCase s = map lower_char s"

definition trim :: "string \<Rightarrow> string" where
  "trim s = rev (dropWhile is_space (rev (dropWhile is_space s)))"

fun str_includes :: "string \<Rightarrow> string \<Rightarrow> bool" where
  "str_includes [] q = (q = [])"
| "str_includes (c # cs) q = (startsWith (c # cs) q \<or> str_includes cs q)"

text \<open>The remainder operator \<open>%\<close>: the result has the sign of the dividend.\<close>

definition js_rem_int :: "int \<Rightarrow> int \<Rightarrow> int" where
  "js_rem_int m n = (if m \<ge> 0 then m mod \<bar>n\<bar> else - ((- m) mod \<bar>n\<bar>))"

definition js_rem :: "real \<Rightarrow> real \<Rightarrow> real" where
  "js_rem v w = v - w * of_int (if v / w \<ge> 0 then \<lfloor>v / w\<rfloor> else \<lceil>v / w\<rceil>)"

text \<open>
  What the two storage requests that \<open>handleSessionEnd\<close> awaits settle to:
  \<open>db.focusSessions.add\<close> rejects; or it resolves and \<open>calculateTodayStats\<close> rejects; or
  both resolve.  Neither \<open>await\<close> is inside a \<open>try\<close>.
\<close>

datatype SessionStorage = AddRejected | StatsRejected | Stored

text \<open>
  What the program takes from its host: the collation behind \<open>String.prototype.localeCompare\<close>,
  the numbers \<open>Math.random()\<close> returns, \<open>math_random h k\<close> being the \<open>k\<close>-th draw of an
  action (each in \<open>[0, 1)\<close>), and what the storage requests of a \<open>Skip Session\<close> action
  settle to.
\<close>

record Host =
  localeCompare :: "string \<Rightarrow> string \<Rightarrow> int"
  math_random :: "nat \<Rightarrow> real"
  session_storage :: SessionStorage

section \<open>The playback hook\<close>

definition play :: "nat \<Rightarrow> Playback \<Rightarrow> Playback" where
  \<comment> \<open>the promise of \<open>audio.play()\<close> is taken to resolve\<close>
  "play url p = p\<lparr>lastUrl := Some url, audio_src := Some url, audio_currentTime := 0,
                   audio_paused := False, isPlaying := True\<rparr>"

definition pause :: "Playback \<Rightarrow> Playback" where
  "pause p = p\<lparr>audio_paused := True, isPlaying := False\<rparr>"

definition resume :: "Playback \<Rightarrow> Playback" where
  "resume p =
     (case audio_src p of
        Some u \<Rightarrow> p\<lparr>audio_paused := False, isPlaying := True\<rparr>
      | None \<Rightarrow> (case lastUrl p of Some u \<Rightarrow> play u p | None \<Rightarrow> p))"

definition seek :: "real \<Rightarrow> Playback \<Rightarrow> Playback" where
  "seek t p = p\<lparr>audio_currentTime := t\<rparr>"

definition stop :: "Playback \<Rightarrow> Playback" where
  "stop p = p\<lparr>audio_paused := True, audio_src := None, isPlaying := False,
               currentTime := 0, duration := 0\<rparr>"

definition handleTimeUpdate :: "Playback \<Rightarrow> Playback" where
  "handleTimeUpdate p = p\<lparr>currentTime := audio_currentTime p\<rparr>"

section \<open>Transport: next and previous\<close>

definition handleNext :: "App \<Rightarrow> App" where
  "handleNext a =
     (if playQueue a = [] then a
      else case currentTrackId a of
        None \<Rightarrow> a
      | Some cur \<Rightarrow>
          (case indexOf (playQueue a) cur of
             None \<Rightarrow> a
           | Some currentIndex \<Rightarrow>
               if currentIndex = length (playQueue a) - 1
               then (if repeatMode a = RepeatAll
                     then a\<lparr>currentTrackId := Some (playQueue a ! 0)\<rparr>
                     else a)
               else a\<lparr>currentTrackId := Some (playQueue a ! (currentIndex + 1))\<rparr>))"

definition handlePrev :: "App \<Rightarrow> App" where
  "handlePrev a =
     (if currentTime (playback a) > 3 then a\<lparr>playback := seek 0 (playback a)\<rparr>
      else if playQueue a = [] then a
      else case currentTrackId a of
        None \<Rightarrow> a
      | Some cur \<Rightarrow>
          (case indexOf (playQueue a) cur of
             None \<Rightarrow> a
           | Some currentIndex \<Rightarrow>
               if currentIndex = 0
               then (if repeatMode a = RepeatAll
                     then a\<lparr>currentTrackId := Some (playQueue a ! (length (playQueue a) - 1))\<rparr>
                     else a)
               else a\<lparr>currentTrackId := Some (playQueue a ! (currentIndex - 1))\<rparr>))"

section \<open>The effect that loads a track when \<open>currentTrackId\<close> changes\<close>

text \<open>
  What \<open>db.songs.get(currentTrackId)\<close> settles to: the promise rejects, or it resolves to
  the stored record, or to \<open>undefined\<close> when there is none.
\<close>

datatype 'a Settled = Rejected | Resolved "'a option"

text \<open>The object URL made for a blob is identified with the blob's handle.\<close>

definition trackLoadEffect :: "Song Settled \<Rightarrow> App \<Rightarrow> App" where
  "trackLoadEffect got a =
     (case currentTrackId a of
        None \<Rightarrow> a\<lparr>playback := stop (playback a)\<rparr>
      | Some cur \<Rightarrow>
          (case got of
             Rejected \<Rightarrow> handleNext a
           | Resolved None \<Rightarrow> handleNext a
           | Resolved (Some song) \<Rightarrow>
               (case fileBlob song of
                  Some blob \<Rightarrow> a\<lparr>playback := play blob (playback a)\<rparr>
                | None \<Rightarrow> a)))"

section \<open>Focus timer\<close>

definition sessionMinutes :: "FocusSettings \<Rightarrow> SessionType \<Rightarrow> int" where
  "sessionMinutes fs t =
     (if t = Work then workMinutes fs
      else if t = ShortBreak then shortBreakMinutes fs
      else longBreakMinutes fs)"

text \<open>
  \<open>handleSessionEnd\<close> awaits \<open>db.focusSessions.add\<close> when the completed session is not
  \<open>idle\<close>, and then \<open>calculateTodayStats\<close> when it is a work session; \<open>sessionStored\<close>
  says that every request it awaits resolves.
\<close>

definition sessionStored :: "SessionStorage \<Rightarrow> SessionType \<Rightarrow> bool" where
  "sessionStored st completedSessionType =
     (completedSessionType = IdleSession \<or> st = Stored
      \<or> (st = StatsRejected \<and> completedSessionType \<noteq> Work))"

text \<open>
  \<open>handleSessionEnd\<close>: without settings it returns at once.  Otherwise the session just
  completed is appended to the stored sessions (unless it is \<open>idle\<close>, or the write is
  rejected), and, when no awaited request has rejected, the next session is set up by
  \<open>setFocusState\<close>.  A rejection ends the function before \<open>setFocusState\<close>.
\<close>

definition handleSessionEnd :: "SessionStorage \<Rightarrow> App \<Rightarrow> App" where
  "handleSessionEnd st a =
     (case focusSettings a of
        None \<Rightarrow> a
      | Some fs \<Rightarrow>
          (let completedSessionType = sessionType (focusState a);
               stored =
                 (if completedSessionType \<noteq> IdleSession \<and> st \<noteq> AddRejected
                  then focusSessions a @
                         [\<lparr>durationMinutes = sessionMinutes fs completedSessionType,
                           session_type = completedSessionType\<rparr>]
                  else focusSessions a);
               incremented = workIntervalsInCycle (focusState a) + 1;
               nextSessionType =
                 (if completedSessionType = Work
                  then (if incremented \<ge> longBreakInterval fs then LongBreak else ShortBreak)
                  else Work);
               nextWorkIntervals =
                 (if completedSessionType = Work
                  then (if incremented \<ge> longBreakInterval fs then 0 else incremented)
                  else workIntervalsInCycle (focusState a));
               nextDuration = sessionMinutes fs nextSessionType * 60
           in if sessionStored st completedSessionType
              then a\<lparr>focusSessions := stored,
                     focusState := \<lparr>isActive = autoStart fs, sessionType = nextSessionType,
                                    timeRemaining = nextDuration,
                                    workIntervalsInCycle = nextWorkIntervals\<rparr>\<rparr>
              else a\<lparr>focusSessions := stored\<rparr>))"

text \<open>
  One firing of the one-second interval.  The interval only exists while the session is
  active and not \<open>idle\<close>.  At \<open>timeRemaining \<le> 1\<close> the updater stores
  \<open>isActive = false, timeRemaining = 0\<close> and calls \<open>handleSessionEnd\<close>, whose own
  \<open>setFocusState\<close>, if it gets there, lands after it.
\<close>

definition focusTick :: "SessionStorage \<Rightarrow> App \<Rightarrow> App" where
  "focusTick st a =
     (let s = focusState a in
      if \<not> isActive s \<or> sessionType s = IdleSession then a
      else if timeRemaining s \<le> 1
      then handleSessionEnd st (a\<lparr>focusState := s\<lparr>isActive := False, timeRemaining := 0\<rparr>\<rparr>)
      else a\<lparr>focusState := s\<lparr>timeRemaining := timeRemaining s - 1\<rparr>\<rparr>)"

text \<open>
  \<open>updateFocusSetting(key, value)\<close> writes one property of the settings object.  The
  program passes numbers for the four numeric keys and booleans for the toggles.  The
  \<open>put\<close> it awaits first is taken to resolve; when it rejects, nothing is set.
\<close>

datatype SettingValue = NumV int | BoolV bool

definition setProperty :: "string \<Rightarrow> SettingValue \<Rightarrow> FocusSettings \<Rightarrow> FocusSettings" where
  "setProperty key v fs =
     (case v of
        NumV n \<Rightarrow>
          (if key = ''workMinutes'' then fs\<lparr>workMinutes := n\<rparr>
           else if key = ''shortBreakMinutes'' then fs\<lparr>shortBreakMinutes := n\<rparr>
           else if key = ''longBreakMinutes'' then fs\<lparr>longBreakMinutes := n\<rparr>
           else if key = ''longBreakInterval'' then fs\<lparr>longBreakInterval := n\<rparr>
           else fs)
      | BoolV b \<Rightarrow>
          (if key = ''tickingSound'' then fs\<lparr>tickingSound := b\<rparr>
           else if key = ''fullscreenBreak'' then fs\<lparr>fullscreenBreak := b\<rparr>
           else if key = ''autoStart'' then fs\<lparr>autoStart := b\<rparr>
           else fs))"

definition updateFocusSetting :: "string \<Rightarrow> SettingValue \<Rightarrow> App \<Rightarrow> App" where
  "updateFocusSetting key v a =
     (case focusSettings a of
        None \<Rightarrow> a
      | Some fs \<Rightarrow> a\<lparr>focusSettings := Some (setProperty key v fs)\<rparr>)"

definition handleFocusPlayPause :: "App \<Rightarrow> App" where
  "handleFocusPlayPause a =
     (let a1 = (if \<not> isActive (focusState a) \<and> isPlaying (playback a)
                then a\<lparr>playback := pause (playback a)\<rparr> else a)
      in a1\<lparr>focusState := (focusState a1)\<lparr>isActive := \<not> isActive (focusState a1)\<rparr>\<rparr>)"

section \<open>The menu of the current view\<close>

text \<open>
  \<open>navigationStack[navigationStack.length - 1]\<close>.  On an empty stack the source reads
  \<open>undefined\<close> and the render throws at \<open>currentView.id\<close>; \<open>step\<close> below stops there
  and never calls a handler.
\<close>

definition currentView :: "App \<Rightarrow> ViewFrame" where
  "currentView a = last (navigationStack a)"

definition currentSong :: "App \<Rightarrow> Song option" where
  "currentSong a = find (\<lambda>s. Some (song_id s) = currentTrackId a) (songs a)"

text \<open>
  The closures stored in \<open>MenuItem.action\<close>, one constructor for each closure body in
  \<open>menuItems\<close>.  A constructor's arguments are the values the closure captured when the
  list was computed.
\<close>

datatype MenuAct =
    NowPlayingAction "int option"
  | Push ViewFrame
  | FocusAction bool
  | BounceAction
  | HandleFocusPlayPause
  | SkipSession
  | UpdateFocusSetting string SettingValue
  | HandleMenuClick
  | ResetStatsYes
  | StartGame
  | PlayAgain
  | OpenSearch
  | PlayAction int "int list"
  | ToggleShuffle
  | CycleRepeat
  | HandleClearLibrary
  | ResetColors
  | HandleSetColor string string
  | SearchAppend string
  | SearchDelete

record MenuItem =
  label :: string
  subtext :: "string option"
  action :: MenuAct
  hasArrow :: "bool option"
  ratingDisplay :: "int option option"
  songId :: "int option"

definition plainItem :: "string \<Rightarrow> MenuAct \<Rightarrow> MenuItem" where
  "plainItem l act =
     \<lparr>label = l, subtext = None, action = act, hasArrow = None, ratingDisplay = None,
      songId = None\<rparr>"

definition arrowItem :: "string \<Rightarrow> MenuAct \<Rightarrow> MenuItem" where
  "arrowItem l act = (plainItem l act)\<lparr>hasArrow := Some True\<rparr>"

definition pushView :: "string \<Rightarrow> MenuAct" where
  "pushView v = Push \<lparr>view_id = v, activeIndex = 0\<rparr>"

definition songItem :: "int list \<Rightarrow> Song \<Rightarrow> MenuItem" where
  "songItem queue song =
     \<lparr>label = title song, subtext = None, action = PlayAction (song_id song) queue,
      hasArrow = None, ratingDisplay = Some (rating song), songId = Some (song_id song)\<rparr>"

definition songItems :: "Song list \<Rightarrow> MenuItem list" where
  "songItems shown = map (songItem (map song_id shown)) shown"

definition mainMenu :: "App \<Rightarrow> MenuItem list" where
  "mainMenu a =
     [(plainItem ''Now Playing'' (NowPlayingAction (currentTrackId a)))
        \<lparr>hasArrow := Some (currentTrackId a \<noteq> None)\<rparr>,
      arrowItem ''Music'' (pushView ''music''),
      arrowItem ''Playlists'' (pushView ''playlists''),
      arrowItem ''Focus'' (FocusAction (isPlaying (playback a))),
      arrowItem ''Bounce'' BounceAction,
      arrowItem ''Settings'' (pushView ''settings'')]"

definition focusMenu :: "App \<Rightarrow> MenuItem list" where
  "focusMenu a =
     [plainItem (if isActive (focusState a) then ''Pause'' else ''Start'') HandleFocusPlayPause,
      plainItem ''Skip Session'' SkipSession,
      arrowItem ''Stats'' (pushView ''focus-stats''),
      arrowItem ''Settings'' (pushView ''focus-settings'')]"

definition showSetting :: "App \<Rightarrow> (FocusSettings \<Rightarrow> int) \<Rightarrow> string" where
  "showSetting a field =
     (case focusSettings a of None \<Rightarrow> ''undefined'' | Some fs \<Rightarrow> show_int (field fs))"

definition settingOr :: "App \<Rightarrow> (FocusSettings \<Rightarrow> 'v) \<Rightarrow> 'v \<Rightarrow> 'v" where
  "settingOr a field dflt = (case focusSettings a of None \<Rightarrow> dflt | Some fs \<Rightarrow> field fs)"

definition editItem ::
  "App \<Rightarrow> string \<Rightarrow> string \<Rightarrow> string \<Rightarrow> (FocusSettings \<Rightarrow> int) \<Rightarrow> int \<Rightarrow> MenuItem" where
  "editItem a l unit key field dflt =
     (arrowItem l (Push \<lparr>view_id = ''focus-setting-edit/'' @ key,
                          activeIndex = settingOr a field dflt\<rparr>))
       \<lparr>subtext := Some (showSetting a field @ unit)\<rparr>"

definition focusSettingsMenu :: "App \<Rightarrow> MenuItem list" where
  "focusSettingsMenu a =
     [editItem a ''Work Duration'' '' min'' ''workMinutes'' workMinutes 25,
      editItem a ''Short Break'' '' min'' ''shortBreakMinutes'' shortBreakMinutes 5,
      editItem a ''Long Break'' '' min'' ''longBreakMinutes'' longBreakMinutes 15,
      editItem a ''Intervals'' [] ''longBreakInterval'' longBreakInterval 4,
      plainItem (''Auto Start: '' @ (if settingOr a autoStart False then ''On'' else ''Off''))
        (UpdateFocusSetting ''autoStart'' (BoolV (\<not> settingOr a autoStart False))),
      plainItem (''Fullscreen Break: '' @ (if settingOr a fullscreenBreak False then ''On'' else ''Off''))
        (UpdateFocusSetting ''fullscreenBreak'' (BoolV (\<not> settingOr a fullscreenBreak False))),
      arrowItem ''Reset Stats'' (pushView ''focus-reset-confirm'')]"

definition focusResetConfirmMenu :: "MenuItem list" where
  "focusResetConfirmMenu =
     [plainItem ''No, Cancel'' HandleMenuClick,
      plainItem ''Yes, Reset All Stats'' ResetStatsYes]"

definition bounceMenu :: "App \<Rightarrow> MenuItem list" where
  "bounceMenu a =
     (if gameState (bounceGame a) = Idle then [plainItem ''Start Game'' StartGame]
      else if gameState (bounceGame a) = GameOver
      then [plainItem ''Play Again'' PlayAgain, plainItem ''Exit'' HandleMenuClick]
      else [])"

definition musicMenu :: "MenuItem list" where
  "musicMenu =
     [arrowItem ''Cover Flow'' (pushView ''cover-flow''),
      arrowItem ''Songs'' (pushView ''songs''),
      arrowItem ''Artists'' (pushView ''artists''),
      arrowItem ''Albums'' (pushView ''albums''),
      arrowItem ''Ratings'' (pushView ''ratings''),
      arrowItem ''Search'' OpenSearch]"

definition playlistItem :: "string \<Rightarrow> Playlist \<Rightarrow> MenuItem" where
  "playlistItem l pl =
     (arrowItem l (pushView (''playlist-songs/'' @ show_int (playlist_id pl))))
       \<lparr>subtext := Some (show_int (int (length (songIds pl))))\<rparr>"

definition playlistsMenu :: "App \<Rightarrow> MenuItem list" where
  "playlistsMenu a =
     (case allPlaylists a of
        None \<Rightarrow> []
      | Some pls \<Rightarrow>
          (case find (\<lambda>pl. playlist_name pl = ''On-The-Go'') pls of
             Some otg \<Rightarrow> [playlistItem ''On-The-Go'' otg]
           | None \<Rightarrow> [])
          @ map (\<lambda>pl. playlistItem (playlist_name pl) pl)
              (filter (\<lambda>pl. playlist_name pl \<noteq> ''On-The-Go'') pls))"

definition playlistSongsMenu :: "App \<Rightarrow> string \<Rightarrow> MenuItem list" where
  "playlistSongsMenu a param =
     (case allPlaylists a of
        None \<Rightarrow> []
      | Some pls \<Rightarrow>
          (case find (\<lambda>pl. Some (playlist_id pl) = parseInt param) pls of
             None \<Rightarrow> []
           | Some pl \<Rightarrow>
               songItems
                 (List.map_filter (\<lambda>i. find (\<lambda>s. song_id s = i) (songs a)) (songIds pl))))"

text \<open>
  The \<open>songs\<close> view sorts the \<open>songs\<close> array itself (\<open>Array.prototype.sort\<close> works in
  place and returns the same array), so this case yields the array as it is afterwards,
  too.
\<close>

definition byTitle :: "Host \<Rightarrow> Song \<Rightarrow> Song \<Rightarrow> int" where
  "byTitle h s t = localeCompare h (title s) (title t)"

definition songsMenu :: "Host \<Rightarrow> App \<Rightarrow> MenuItem list \<times> Song list" where
  "songsMenu h a = (let sorted = js_sort (byTitle h) (songs a) in (songItems sorted, sorted))"

definition searchResultsMenu :: "App \<Rightarrow> MenuItem list" where
  "searchResultsMenu a =
     (let q = trim (toLowerCase (searchQuery a));
          searchResults =
            (if q = [] then []
             else filter (\<lambda>s. str_includes (toLowerCase (title s)) q
                            \<or> str_includes (toLowerCase (artist s)) q
                            \<or> str_includes (toLowerCase (album s)) q) (songs a))
      in songItems searchResults)"

definition ratedSongsMenu :: "App \<Rightarrow> string \<Rightarrow> MenuItem list" where
  "ratedSongsMenu a param =
     songItems
       (filter (\<lambda>s. case parseInt param of
                       None \<Rightarrow> False
                     | Some minRating \<Rightarrow> (case rating s of None \<Rightarrow> 0 | Some r \<Rightarrow> r) \<ge> minRating)
          (songs a))"

definition albumSongsMenu :: "App \<Rightarrow> string \<Rightarrow> MenuItem list" where
  "albumSongsMenu a param = songItems (filter (\<lambda>s. album s = param) (songs a))"

definition artistsMenu :: "App \<Rightarrow> MenuItem list" where
  "artistsMenu a =
     map (\<lambda>ar. arrowItem ar (pushView (''artist-albums/'' @ ar)))
       (js_sort defaultCompare (uniq (map artist (songs a))))"

definition albumItem :: "string \<Rightarrow> MenuItem" where
  "albumItem al = arrowItem al (pushView (''album-songs/'' @ al))"

definition artistAlbumsMenu :: "App \<Rightarrow> string \<Rightarrow> MenuItem list" where
  "artistAlbumsMenu a param =
     map albumItem
       (js_sort defaultCompare (uniq (map album (filter (\<lambda>s. artist s = param) (songs a)))))"

definition albumsMenu :: "App \<Rightarrow> MenuItem list" where
  "albumsMenu a = map albumItem (js_sort defaultCompare (uniq (map album (songs a))))"

text \<open>The star glyphs U+2605 and U+2606 and the check mark U+2713, as UTF-8 bytes.\<close>

definition BLACK_STAR :: string where
  "BLACK_STAR = [char_of (226::nat), char_of (152::nat), char_of (133::nat)]"

definition WHITE_STAR :: string where
  "WHITE_STAR = [char_of (226::nat), char_of (152::nat), char_of (134::nat)]"

definition CHECK_MARK :: string where
  "CHECK_MARK = [char_of (226::nat), char_of (156::nat), char_of (147::nat)]"

definition ratingsMenu :: "MenuItem list" where
  "ratingsMenu =
     map (\<lambda>r. arrowItem (concat (replicate r BLACK_STAR) @ concat (replicate (5 - r) WHITE_STAR))
                 (pushView (''rated-songs/'' @ show_nat r)))
       [5, 4, 3, 2, 1]"

definition repeatLabel :: "RepeatMode \<Rightarrow> string" where
  "repeatLabel r = (case r of RepeatOff \<Rightarrow> ''Off'' | RepeatAll \<Rightarrow> ''All'' | RepeatOne \<Rightarrow> ''One'')"

definition settingsMenu :: "App \<Rightarrow> MenuItem list" where
  "settingsMenu a =
     [plainItem (''Shuffle: '' @ (if shuffleMode a then ''On'' else ''Off'')) ToggleShuffle,
      plainItem (''Repeat: '' @ repeatLabel (repeatMode a)) CycleRepeat,
      arrowItem ''Appearance'' (pushView ''appearance''),
      arrowItem ''Library Management'' (pushView ''library-management''),
      arrowItem ''About'' (pushView ''about'')]"

definition libraryManagementMenu :: "MenuItem list" where
  "libraryManagementMenu =
     [arrowItem ''Add Music'' (pushView ''load''),
      arrowItem ''Clear Library'' HandleClearLibrary]"

definition appearanceMenu :: "MenuItem list" where
  "appearanceMenu =
     [arrowItem ''iPod Body'' (pushView ''body-color''),
      arrowItem ''Click Wheel'' (pushView ''wheel-color''),
      plainItem ''Reset to Default'' ResetColors]"

definition BODY_COLORS :: "(string \<times> string) list" where
  "BODY_COLORS =
     [(''White'', ''bg-gradient-to-b from-gray-100 to-gray-300''),
      (''Black'', ''bg-gradient-to-b from-gray-800 to-black''),
      (''Silver'', ''bg-gradient-to-b from-gray-400 to-gray-600''),
      (''Blue'', ''bg-gradient-to-b from-blue-300 to-blue-500''),
      (''Gold'', ''bg-gradient-to-b from-yellow-300 to-yellow-500''),
      (''Green'', ''bg-gradient-to-b from-green-300 to-green-500''),
      (''Lime'', ''bg-gradient-to-b from-lime-300 to-lime-500''),
      (''Pink'', ''bg-gradient-to-b from-pink-300 to-pink-500''),
      (''Purple'', ''bg-gradient-to-b from-purple-300 to-purple-500''),
      (''Red'', ''bg-gradient-to-b from-red-400 to-red-600'')]"

definition WHEEL_COLORS :: "(string \<times> string) list" where
  "WHEEL_COLORS =
     [(''Gray'', ''bg-gray-800''),
      (''Black'', ''bg-black''),
      (''Blue'', ''bg-blue-800''),
      (''Green'', ''bg-green-700''),
      (''Orange'', ''bg-orange-700''),
      (''Purple'', ''bg-purple-800''),
      (''Red'', ''bg-red-700'')]"

definition DEFAULT_COLORS :: IpodColors where
  "DEFAULT_COLORS =
     \<lparr>body_color = ''bg-gradient-to-b from-gray-100 to-gray-300'', wheel_color = ''bg-gray-800''\<rparr>"

definition colorItem :: "string \<Rightarrow> string \<Rightarrow> string \<times> string \<Rightarrow> MenuItem" where
  "colorItem part chosen color =
     \<lparr>label = fst color, subtext = Some (if chosen = snd color then CHECK_MARK else []),
      action = HandleSetColor part (snd color),
      hasArrow = (if chosen = snd color then Some False else None),
      ratingDisplay = None, songId = None\<rparr>"

definition SEARCH_CHARS :: string where
  "SEARCH_CHARS = ''ABCDEFGHIJKLMNOPQRSTUVWXYZ0123456789''"

definition searchMenu :: "MenuItem list" where
  "searchMenu =
     map (\<lambda>c. plainItem [c] (SearchAppend [c])) SEARCH_CHARS @
     [plainItem ''Space'' (SearchAppend '' ''),
      plainItem ''Delete'' SearchDelete,
      arrowItem ''Done'' (pushView ''search-results'')]"

text \<open>
  \<open>menuItems\<close>: the \<open>switch (true)\<close> over the view id, in the order of the source.  The
  second component is the \<open>songs\<close> array after the computation.
\<close>

definition menuItems :: "Host \<Rightarrow> App \<Rightarrow> MenuItem list \<times> Song list" where
  "menuItems h a =
     (let viewId = view_id (currentView a); param = secondSegment viewId in
      if viewId = ''main'' then (mainMenu a, songs a)
      else if viewId = ''focus'' then (focusMenu a, songs a)
      else if viewId = ''focus-settings'' then (focusSettingsMenu a, songs a)
      else if viewId = ''focus-reset-confirm'' then (focusResetConfirmMenu, songs a)
      else if viewId = ''bounce-game'' then (bounceMenu a, songs a)
      else if viewId = ''music'' then (musicMenu, songs a)
      else if viewId = ''playlists'' then (playlistsMenu a, songs a)
      else if startsWith viewId ''playlist-songs/'' then (playlistSongsMenu a param, songs a)
      else if viewId = ''songs'' then songsMenu h a
      else if viewId = ''search-results'' then (searchResultsMenu a, songs a)
      else if startsWith viewId ''rated-songs/'' then (ratedSongsMenu a param, songs a)
      else if startsWith viewId ''album-songs/'' then (albumSongsMenu a param, songs a)
      else if viewId = ''artists'' then (artistsMenu a, songs a)
      else if startsWith viewId ''artist-albums/'' then (artistAlbumsMenu a param, songs a)
      else if viewId = ''albums'' then (albumsMenu a, songs a)
      else if viewId = ''ratings'' then (ratingsMenu, songs a)
      else if viewId = ''settings'' then (settingsMenu a, songs a)
      else if viewId = ''library-management'' then (libraryManagementMenu, songs a)
      else if viewId = ''appearance'' then (appearanceMenu, songs a)
      else if viewId = ''body-color''
      then (map (colorItem ''body'' (body_color (ipodColors a))) BODY_COLORS, songs a)
      else if viewId = ''wheel-color''
      then (map (colorItem ''wheel'' (wheel_color (ipodColors a))) WHEEL_COLORS, songs a)
      else if viewId = ''search'' then (searchMenu, songs a)
      else ([], songs a))"

text \<open>
  A render recomputes the memoised menu when something it depends on has changed, which
  leaves \<open>songs\<close> as \<open>menuItems\<close> left it.
\<close>

definition render :: "Host \<Rightarrow> App \<Rightarrow> App" where
  "render h a = a\<lparr>songs := snd (menuItems h a)\<rparr>"

text \<open>\<open>coverFlowItems\<close>: one entry (album, artist) per album, sorted by album (artwork left out).\<close>

definition coverFlowItems :: "Host \<Rightarrow> App \<Rightarrow> (string \<times> string) list" where
  "coverFlowItems h a =
     js_sort (\<lambda>c d. localeCompare h (fst c) (fst d))
       (List.map_filter
          (\<lambda>al. map_option (\<lambda>s. (al, artist s)) (find (\<lambda>s. album s = al) (songs a)))
          (uniq (map album (songs a))))"

section \<open>Handlers\<close>

definition getInitialBallVelocity :: "Host \<Rightarrow> real \<Rightarrow> Ball" where
  "getInitialBallVelocity h speed =
     (let angle = math_random h 0 * 2 * pi in
      \<lparr>ball_x = 0, ball_y = 0, ball_dx = cos angle * speed, ball_dy = sin angle * speed\<rparr>)"

text \<open>
  \<open>setBounceGame(f)\<close>; the effect that depends on \<open>bounceGame\<close> then stores the new state
  in \<open>bounceGameStateRef\<close>.
\<close>

definition setBounceGame :: "(BounceGameState \<Rightarrow> BounceGameState) \<Rightarrow> App \<Rightarrow> App" where
  "setBounceGame f a = (let g = f (bounceGame a) in a\<lparr>bounceGame := g, bounceGameStateRef := g\<rparr>)"

definition resetGame :: "Host \<Rightarrow> GamePhase \<Rightarrow> BounceGameState \<Rightarrow> BounceGameState" where
  "resetGame h phase g =
     g\<lparr>gameState := phase, score := 0, ball := getInitialBallVelocity h 0.5, ballSpeed := 0.8\<rparr>"

definition setNavigationStack :: "(ViewFrame list \<Rightarrow> ViewFrame list) \<Rightarrow> App \<Rightarrow> App" where
  "setNavigationStack f a = a\<lparr>navigationStack := f (navigationStack a)\<rparr>"

definition pushFrame :: "ViewFrame \<Rightarrow> App \<Rightarrow> App" where
  "pushFrame fr = setNavigationStack (\<lambda>s. s @ [fr])"

definition handleMenuClick :: "Host \<Rightarrow> App \<Rightarrow> App" where
  "handleMenuClick h a =
     (let cv = currentView a;
          a1 = (if startsWith (view_id cv) ''focus-setting-edit/''
                then updateFocusSetting (secondSegment (view_id cv)) (NumV (activeIndex cv)) a
                else a);
          a2 = (if view_id cv = ''bounce-game'' then setBounceGame (resetGame h Idle) a1 else a1);
          a3 = a2\<lparr>nowPlayingMode := VolumeMode\<rparr>
      in if length (navigationStack a) > 1
         then setNavigationStack (slice_to_minus 1) a3
         else a3)"

text \<open>
  The Fisher-Yates loop of \<open>createPlayAction\<close>: \<open>for (i = length - 1; i > 0; i--)\<close> with
  \<open>j = Math.floor(Math.random() * (i + 1))\<close> and the swap of positions \<open>i\<close> and \<open>j\<close>;
  \<open>k\<close> counts the draws.
\<close>

fun shuffle_loop :: "(nat \<Rightarrow> real) \<Rightarrow> nat \<Rightarrow> nat \<Rightarrow> 'a list \<Rightarrow> 'a list" where
  "shuffle_loop rnd k 0 shuffled = shuffled"
| "shuffle_loop rnd k (Suc i) shuffled =
     (let j = nat \<lfloor>rnd k * real (Suc i + 1)\<rfloor>
      in shuffle_loop rnd (Suc k) i (shuffled[Suc i := shuffled ! j, j := shuffled ! Suc i]))"

definition createPlayAction :: "Host \<Rightarrow> int \<Rightarrow> int list \<Rightarrow> App \<Rightarrow> App" where
  "createPlayAction h sid queue a =
     (let finalQueue =
            (if shuffleMode a
             then (let shuffled = filter (\<lambda>i. i \<noteq> sid) queue
                   in sid # shuffle_loop (math_random h) 0 (length shuffled - 1) shuffled)
             else queue)
      in a\<lparr>playQueue := finalQueue, currentTrackId := Some sid\<rparr>)"

definition cycleRepeat :: "RepeatMode \<Rightarrow> RepeatMode" where
  "cycleRepeat r = (if r = RepeatOff then RepeatAll else if r = RepeatAll then RepeatOne else RepeatOff)"

text \<open>
  Running a menu closure.  \<open>ResetStatsYes\<close> and \<open>HandleClearLibrary\<close> are \<open>async\<close>: what
  they do after their first \<open>await\<close> is queued in \<open>pending\<close> and runs in \<open>finish\<close>.
\<close>

definition invoke :: "Host \<Rightarrow> MenuAct \<Rightarrow> App \<Rightarrow> App" where
  "invoke h act a =
     (case act of
        NowPlayingAction cur \<Rightarrow>
          (if cur \<noteq> None then pushFrame \<lparr>view_id = ''now-playing'', activeIndex = 0\<rparr> a else a)
      | Push fr \<Rightarrow> pushFrame fr a
      | FocusAction playing \<Rightarrow>
          pushFrame \<lparr>view_id = ''focus'', activeIndex = 0\<rparr>
            (if playing then a\<lparr>playback := pause (playback a)\<rparr> else a)
      | BounceAction \<Rightarrow>
          pushFrame \<lparr>view_id = ''bounce-game'', activeIndex = 0\<rparr>
            (setBounceGame (resetGame h Idle) (a\<lparr>playback := stop (playback a)\<rparr>))
      | HandleFocusPlayPause \<Rightarrow> handleFocusPlayPause a
      | SkipSession \<Rightarrow> handleSessionEnd (session_storage h) a
      | UpdateFocusSetting key v \<Rightarrow> updateFocusSetting key v a
      | HandleMenuClick \<Rightarrow> handleMenuClick h a
      | ResetStatsYes \<Rightarrow> a\<lparr>pending := pending a @ [ResetStatsFinish]\<rparr>
      | StartGame \<Rightarrow> setBounceGame (resetGame h Playing) a
      | PlayAgain \<Rightarrow> setBounceGame (resetGame h Playing) a
      | OpenSearch \<Rightarrow> pushFrame \<lparr>view_id = ''search'', activeIndex = 0\<rparr> (a\<lparr>searchQuery := []\<rparr>)
      | PlayAction sid queue \<Rightarrow> createPlayAction h sid queue a
      | ToggleShuffle \<Rightarrow> a\<lparr>shuffleMode := \<not> shuffleMode a\<rparr>
      | CycleRepeat \<Rightarrow> a\<lparr>repeatMode := cycleRepeat (repeatMode a)\<rparr>
      | HandleClearLibrary \<Rightarrow>
          (pushFrame \<lparr>view_id = ''clearing-library'', activeIndex = 0\<rparr> a)
            \<lparr>pending := pending a @ [ClearLibraryKeys]\<rparr>
      | ResetColors \<Rightarrow> a\<lparr>ipodColors := DEFAULT_COLORS\<rparr>
      | HandleSetColor part cls \<Rightarrow>
          (if part = ''body'' then a\<lparr>ipodColors := (ipodColors a)\<lparr>body_color := cls\<rparr>\<rparr>
           else a\<lparr>ipodColors := (ipodColors a)\<lparr>wheel_color := cls\<rparr>\<rparr>)
      | SearchAppend c \<Rightarrow> a\<lparr>searchQuery := searchQuery a @ c\<rparr>
      | SearchDelete \<Rightarrow> a\<lparr>searchQuery := butlast (searchQuery a)\<rparr>)"

text \<open>\<open>items[i]?.action()\<close>: nothing happens when the index is outside the list.\<close>

definition invokeAt :: "Host \<Rightarrow> MenuItem list \<Rightarrow> int \<Rightarrow> App \<Rightarrow> App" where
  "invokeAt h items i a =
     (if 0 \<le> i \<and> i < int (length items) then invoke h (action (items ! nat i)) a else a)"


definition clamp :: "int \<Rightarrow> int \<Rightarrow> int \<Rightarrow> int" where
  \<comment> \<open>\<open>Math.max(lo, Math.min(hi, v))\<close>\<close>
  "clamp lo hi v = max lo (min hi v)"

definition replaceTop :: "int \<Rightarrow> ViewFrame list \<Rightarrow> ViewFrame list" where
  \<comment> \<open>\<open>[...stack.slice(0, -1), { ...last, activeIndex: v }]\<close>\<close>
  "replaceTop v stack = slice_to_minus 1 stack @ [(last stack)\<lparr>activeIndex := v\<rparr>]"

definition handleSetRating :: "int \<Rightarrow> int \<Rightarrow> App \<Rightarrow> App" where
  "handleSetRating sid r a =
     a\<lparr>songs := map (\<lambda>s. if song_id s = sid then s\<lparr>rating := Some (clamp 0 5 r)\<rparr> else s) (songs a)\<rparr>"

definition handleScroll :: "Host \<Rightarrow> int \<Rightarrow> App \<Rightarrow> App" where
  "handleScroll h direction a =
     (let cv = currentView a in
      if startsWith (view_id cv) ''focus-setting-edit/''
      then (let key = secondSegment (view_id cv) in
            setNavigationStack
              (\<lambda>stack.
                 let newValue = activeIndex (last stack) + direction
                 in replaceTop (if key = ''longBreakInterval'' then clamp 1 10 newValue
                                else clamp 1 90 newValue) stack) a)
      else if view_id cv = ''bounce-game'' \<and> gameState (bounceGameStateRef a) = Playing
      then a\<lparr>bounceGameStateRef := (bounceGameStateRef a)
                \<lparr>paddleAngle :=
                   js_rem (paddleAngle (bounceGameStateRef a) + real_of_int direction * 10 + 360) 360\<rparr>\<rparr>
      else if view_id cv = ''now-playing'' \<and> (case currentSong a of None \<Rightarrow> False | Some s \<Rightarrow> song_id s \<noteq> 0)
      then (case currentSong a of
              None \<Rightarrow> a
            | Some s \<Rightarrow>
                if nowPlayingMode a = RatingMode
                then (let currentRating = (case rating s of None \<Rightarrow> 0 | Some r \<Rightarrow> r);
                          newRating = clamp 0 5 (currentRating + direction)
                      in if newRating \<noteq> currentRating then handleSetRating (song_id s) newRating a
                         else a)
                else a\<lparr>volume := max 0 (min 1 (volume a + real_of_int direction * 0.05))\<rparr>)
      else (let n = (if view_id cv = ''cover-flow'' then int (length (coverFlowItems h a))
                     else int (length (fst (menuItems h a))))
            in if n = 0 then a
               else setNavigationStack
                      (\<lambda>stack. replaceTop (js_rem_int (activeIndex (last stack) + direction + n) n) stack) a))"

definition handleSelectClick :: "Host \<Rightarrow> App \<Rightarrow> App" where
  "handleSelectClick h a =
     (let cv = currentView a in
      if startsWith (view_id cv) ''focus-setting-edit/''
      then setNavigationStack (slice_to_minus 1)
             (updateFocusSetting (secondSegment (view_id cv)) (NumV (activeIndex cv)) a)
      else if view_id cv = ''bounce-game''
      then (if gameState (bounceGame a) = Idle \<or> gameState (bounceGame a) = GameOver
            then invokeAt h (fst (menuItems h a)) (activeIndex cv) a
            else a)
      else if view_id cv = ''now-playing''
      then a\<lparr>nowPlayingMode := (if nowPlayingMode a = VolumeMode then RatingMode else VolumeMode)\<rparr>
      else if view_id cv = ''load'' then a
      else if view_id cv = ''cover-flow'' \<and> coverFlowItems h a \<noteq> []
      then \<comment> \<open>the index is kept inside the list by \<open>handleScroll\<close>; outside it the source throws\<close>
           (if 0 \<le> activeIndex cv \<and> activeIndex cv < int (length (coverFlowItems h a))
            then pushFrame \<lparr>view_id = ''album-songs/'' @ fst (coverFlowItems h a ! nat (activeIndex cv)),
                            activeIndex = 0\<rparr> a
            else a)
      else invokeAt h (fst (menuItems h a)) (activeIndex cv) a)"

text \<open>\<open>menuItems[currentView.activeIndex]\<close>, which is \<open>undefined\<close> outside the list.\<close>

definition selectedMenuItem :: "Host \<Rightarrow> App \<Rightarrow> MenuItem option" where
  "selectedMenuItem h a =
     (let items = fst (menuItems h a); i = activeIndex (currentView a) in
      if 0 \<le> i \<and> i < int (length items) then Some (items ! nat i) else None)"

text \<open>
  \<open>handleSelectLongPress\<close> up to its storage transaction: the id it asks to append to the
  On-The-Go playlist, \<open>None\<close> when it returns at \<open>if (!songIdToAdd) return\<close> (no row, a row
  without a song id, or the id 0).
\<close>

definition handleSelectLongPress :: "Host \<Rightarrow> App \<Rightarrow> int option" where
  "handleSelectLongPress h a =
     (case selectedMenuItem h a of
        None \<Rightarrow> None
      | Some row \<Rightarrow>
          (case songId row of
             None \<Rightarrow> None
           | Some songIdToAdd \<Rightarrow> if songIdToAdd = 0 then None else Some songIdToAdd))"

text \<open>
  The body of its transaction on the playlists table: the id is appended to the playlist
  named On-The-Go unless it is there already, and a table without that playlist gets it,
  under the key the table generates, holding just the id.  A transaction that fails is
  caught and logged, and leaves the table as it was.
\<close>

definition addToOnTheGo :: "int \<Rightarrow> int \<Rightarrow> Playlist list \<Rightarrow> Playlist list" where
  "addToOnTheGo newKey songIdToAdd table =
     (case find (\<lambda>pl. playlist_name pl = ''On-The-Go'') table of
        Some otgPlaylist \<Rightarrow>
          (if songIdToAdd \<in> set (songIds otgPlaylist) then table
           else map (\<lambda>pl. if playlist_id pl = playlist_id otgPlaylist
                          then pl\<lparr>songIds := songIds otgPlaylist @ [songIdToAdd]\<rparr> else pl) table)
      | None \<Rightarrow>
          table @ [\<lparr>playlist_id = newKey, playlist_name = ''On-The-Go'', songIds = [songIdToAdd]\<rparr>])"

definition longPressTransaction :: "bool \<Rightarrow> int \<Rightarrow> int \<Rightarrow> Playlist list \<Rightarrow> Playlist list" where
  "longPressTransaction commits newKey songIdToAdd table =
     (if commits then addToOnTheGo newKey songIdToAdd table else table)"

definition handlePlayPause :: "App \<Rightarrow> App" where
  "handlePlayPause a =
     (let cv = currentView a in
      if startsWith (view_id cv) ''focus'' then handleFocusPlayPause a
      else if view_id cv = ''bounce-game''
      then (if gameState (bounceGame a) = Playing then setBounceGame (\<lambda>g. g\<lparr>gameState := Paused\<rparr>) a
            else if gameState (bounceGame a) = Paused then setBounceGame (\<lambda>g. g\<lparr>gameState := Playing\<rparr>) a
            else a)
      else if isPlaying (playback a) then a\<lparr>playback := pause (playback a)\<rparr>
      else if currentTrackId a \<noteq> None \<and> currentTrackId a \<noteq> Some 0
      then a\<lparr>playback := resume (playback a)\<rparr>
      else if playQueue a \<noteq> [] then a\<lparr>currentTrackId := Some (playQueue a ! 0)\<rparr>
      else a)"

section \<open>Asynchronous completions and the event loop\<close>

text \<open>
  The tail of the \<open>Yes, Reset All Stats\<close> action after its two \<open>await\<close>s, and the two
  \<open>setTimeout\<close> callbacks of \<open>handleClearLibrary\<close>.
\<close>

definition finish :: "Continuation \<Rightarrow> App \<Rightarrow> App" where
  "finish k a =
     (case k of
        ResetStatsFinish \<Rightarrow> setNavigationStack (slice_to_minus 2) (a\<lparr>focusSessions := []\<rparr>)
      | ClearLibraryGoBack \<Rightarrow> setNavigationStack (slice_to_minus 1) a
      | ClearLibraryToLoad \<Rightarrow> a\<lparr>navigationStack := [\<lparr>view_id = ''load'', activeIndex = 0\<rparr>]\<rparr>
      | ClearLibraryKeys \<Rightarrow> a)"

text \<open>
  \<open>handleClearLibrary\<close> after \<open>await db.songs.toCollection().keys()\<close>: \<open>None\<close> when
  storage raised (the \<open>catch\<close> branch), the keys otherwise.  The chunked deletion, which
  spans several tasks, is taken as one step.
\<close>

definition clearLibraryKeysRead :: "int list option \<Rightarrow> App \<Rightarrow> App" where
  "clearLibraryKeysRead got a =
     (case got of
        None \<Rightarrow> a\<lparr>pending := pending a @ [ClearLibraryGoBack]\<rparr>
      | Some allSongKeys \<Rightarrow>
          if allSongKeys = [] then a\<lparr>pending := pending a @ [ClearLibraryGoBack]\<rparr>
          else a\<lparr>playback := stop (playback a), songs := [], playQueue := [],
                  currentTrackId := None, pending := pending a @ [ClearLibraryToLoad]\<rparr>)"

text \<open>
  \<open>handleFileChange\<close> at the end of an import that raised no error: \<open>allSongs\<close> is the
  content of the songs table by then.
\<close>

definition fileChangeDone :: "Song list \<Rightarrow> App \<Rightarrow> App" where
  "fileChangeDone allSongs a =
     a\<lparr>songs := allSongs, navigationStack := [\<lparr>view_id = ''main'', activeIndex = 0\<rparr>]\<rparr>"

datatype Event =
    Scroll int
  | MenuClick
  | SelectClick
  | PlayPauseClick
  | NextClick
  | PrevClick
  | Finish Continuation
  | KeysRead "int list option"
  | FileChangeDone "Song list"

text \<open>
  One task of the event loop: a handler runs on the state of the last render, then the
  component renders again.  \<open>None\<close>: the event cannot occur (no such completion is
  outstanding), or the last render threw because the stack was empty.
\<close>

definition step :: "Host \<Rightarrow> Event \<Rightarrow> App \<Rightarrow> App option" where
  "step h e a =
     (if navigationStack a = [] then None
      else map_option (\<lambda>b. if navigationStack b = [] then b else render h b)
        (case e of
           Scroll d \<Rightarrow> Some (handleScroll h d a)
         | MenuClick \<Rightarrow> Some (handleMenuClick h a)
         | SelectClick \<Rightarrow> Some (handleSelectClick h a)
         | PlayPauseClick \<Rightarrow> Some (handlePlayPause a)
         | NextClick \<Rightarrow> Some (handleNext a)
         | PrevClick \<Rightarrow> Some (handlePrev a)
         | Finish k \<Rightarrow>
             (if k \<in> set (pending a) \<and> k \<noteq> ClearLibraryKeys
              then Some (finish k (a\<lparr>pending := remove1 k (pending a)\<rparr>))
              else None)
         | KeysRead got \<Rightarrow>
             (if ClearLibraryKeys \<in> set (pending a)
              then Some (clearLibraryKeysRead got (a\<lparr>pending := remove1 ClearLibraryKeys (pending a)\<rparr>))
              else None)
         | FileChangeDone allSongs \<Rightarrow> Some (fileChangeDone allSongs a)))"

fun run :: "Host \<Rightarrow> Event list \<Rightarrow> App \<Rightarrow> App option" where
  "run h [] a = Some a"
| "run h (e # es) a = (case step h e a of None \<Rightarrow> None | Some b \<Rightarrow> run h es b)"

text \<open>The values given to \<open>useState\<close>, with the stored high score and colors as parameters.\<close>

definition DEFAULT_FOCUS_SETTINGS :: FocusSettings where
  "DEFAULT_FOCUS_SETTINGS =
     \<lparr>workMinutes = 25, shortBreakMinutes = 5, longBreakMinutes = 15, longBreakInterval = 4,
      tickingSound = False, fullscreenBreak = True, autoStart = True\<rparr>"

definition initialApp :: "int \<Rightarrow> IpodColors \<Rightarrow> App" where
  "initialApp storedHighScore storedColors =
     (let game = \<lparr>gameState = Idle, score = 0, highScore = storedHighScore, paddleAngle = 0,
                  ball = \<lparr>ball_x = 0, ball_y = 0, ball_dx = 0, ball_dy = 0\<rparr>, ballSpeed = 0.8\<rparr>
      in \<lparr>songs = [], navigationStack = [\<lparr>view_id = ''load'', activeIndex = 0\<rparr>],
          currentTrackId = None, playQueue = [], shuffleMode = False, repeatMode = RepeatOff,
          volume = 0.75, nowPlayingMode = VolumeMode, searchQuery = [], allPlaylists = None,
          bounceGame = game, bounceGameStateRef = game, focusSettings = None,
          focusState = \<lparr>isActive = False, sessionType = IdleSession, timeRemaining = 25 * 60,
                         workIntervalsInCycle = 0\<rparr>,
          focusSessions = [], ipodColors = storedColors,
          playback = \<lparr>isPlaying = False, currentTime = 0, duration = 0, lastUrl = None,
                       audio_src = None, audio_currentTime = 0, audio_paused = True\<rparr>,
          pending = []\<rparr>)"

text \<open>
  \<open>initializeApp\<close> once the database has answered: the stored settings (or the defaults)
  and the stored songs.
\<close>

definition initializeApp :: "FocusSettings option \<Rightarrow> Song list \<Rightarrow> App \<Rightarrow> App" where
  "initializeApp storedSettings storedSongs a =
     (let settings = (case storedSettings of None \<Rightarrow> DEFAULT_FOCUS_SETTINGS | Some fs \<Rightarrow> fs);
          a1 = a\<lparr>focusSettings := Some settings,
                  focusState := (focusState a)\<lparr>timeRemaining := workMinutes settings * 60,
                                                sessionType := Work\<rparr>\<rparr>
      in if length storedSongs > 0
         then a1\<lparr>songs := storedSongs, navigationStack := [\<lparr>view_id = ''main'', activeIndex = 0\<rparr>]\<rparr>
         else a1\<lparr>navigationStack := [\<lparr>view_id = ''load'', activeIndex = 0\<rparr>]\<rparr>)"

section \<open>The Bounce game loop\<close>









section \<open>The select button of the click wheel\<close>

text \<open>
  \<open>longPressTimer.current\<close> is \<open>timerRef\<close>; \<open>scheduled\<close> are the timeouts that have been
  set and neither fired nor been cleared; \<open>calls\<close> records the callbacks invoked, oldest
  first.  Timer ids start at 1, as in browsers.
\<close>

datatype Callback = OnSelectClick | OnSelectLongPress

datatype WheelEvent = SelectMouseDown | SelectMouseUp | TimerFires nat

record Wheel =
  timerRef :: "nat option"
  scheduled :: "nat list"
  nextTimerId :: nat
  calls :: "Callback list"

definition handleSelectMouseDown :: "bool \<Rightarrow> Wheel \<Rightarrow> Wheel" where
  "handleSelectMouseDown hasLongPress w =
     (if hasLongPress
      then w\<lparr>timerRef := Some (nextTimerId w), scheduled := scheduled w @ [nextTimerId w],
             nextTimerId := nextTimerId w + 1\<rparr>
      else w)"

definition handleSelectMouseUp :: "Wheel \<Rightarrow> Wheel" where
  "handleSelectMouseUp w =
     (case timerRef w of
        None \<Rightarrow> w
      | Some t \<Rightarrow>
          if t = 0 then w
          else w\<lparr>scheduled := removeAll t (scheduled w), timerRef := None,
                 calls := calls w @ [OnSelectClick]\<rparr>)"

definition timerCallback :: "nat \<Rightarrow> Wheel \<Rightarrow> Wheel" where
  "timerCallback t w =
     w\<lparr>scheduled := removeAll t (scheduled w), calls := calls w @ [OnSelectLongPress],
       timerRef := None\<rparr>"

definition wheelStep :: "bool \<Rightarrow> WheelEvent \<Rightarrow> Wheel \<Rightarrow> Wheel option" where
  "wheelStep hasLongPress e w =
     (case e of
        SelectMouseDown \<Rightarrow> Some (handleSelectMouseDown hasLongPress w)
      | SelectMouseUp \<Rightarrow> Some (handleSelectMouseUp w)
      | TimerFires t \<Rightarrow> if t \<in> set (scheduled w) then Some (timerCallback t w) else None)"

fun wheelRun :: "bool \<Rightarrow> WheelEvent list \<Rightarrow> Wheel \<Rightarrow> Wheel option" where
  "wheelRun hasLongPress [] w = Some w"
| "wheelRun hasLongPress (e # es) w =
     (case wheelStep hasLongPress e w of None \<Rightarrow> None | Some v \<Rightarrow> wheelRun hasLongPress es v)"

definition idleWheel :: Wheel where
  "idleWheel = \<lparr>timerRef = None, scheduled = [], nextTimerId = 1, calls = []\<rparr>"

text \<open>
  What a callback of the select button performs when invoked on state \<open>a\<close>:
  \<open>onSelectClick\<close> is \<open>handleSelectClick\<close>, the normal select; \<open>onSelectLongPress\<close> is
  \<open>handleSelectLongPress\<close>, which quick-adds a song or does nothing.
\<close>

datatype Performed = NormalSelect | QuickAdd int

definition performed :: "Host \<Rightarrow> App \<Rightarrow> Callback \<Rightarrow> Performed list" where
  "performed h a cb =
     (case cb of
        OnSelectClick \<Rightarrow> [NormalSelect]
      | OnSelectLongPress \<Rightarrow>
          (case handleSelectLongPress h a of None \<Rightarrow> [] | Some sid \<Rightarrow> [QuickAdd sid]))"

section \<open>Example hosts and states\<close>

text \<open>
  A host whose collation is the code-unit order, whose random numbers are all \<open>1/2\<close>
  and whose storage answers, a library of two songs, and states built from \<open>initialApp\<close> by the program's
  own steps.
\<close>

definition demoHost :: Host where
  "demoHost =
     \<lparr>localeCompare = defaultCompare, math_random = (\<lambda>k. 1 / 2), session_storage = Stored\<rparr>"

definition demoSong :: "int \<Rightarrow> string \<Rightarrow> Song" where
  "demoSong i t =
     \<lparr>song_id = i, fileBlob = Some (nat i), title = t, artist = ''x'', album = ''y'',
      song_duration = 180, rating = None\<rparr>"

definition loadedApp :: App where
  "loadedApp = initializeApp None [demoSong 1 ''b'', demoSong 2 ''a''] (initialApp 0 DEFAULT_COLORS)"

definition playingAt :: "real \<Rightarrow> Playback" where
  "playingAt t =
     \<lparr>isPlaying = True, currentTime = t, duration = 180, lastUrl = Some 1, audio_src = Some 1,
      audio_currentTime = t, audio_paused = False\<rparr>"

definition playingApp :: App where
  "playingApp = loadedApp\<lparr>playQueue := [1, 2], currentTrackId := Some 1, playback := playingAt 42\<rparr>"

definition queueApp :: "int list \<Rightarrow> int \<Rightarrow> App" where
  "queueApp q cur = loadedApp\<lparr>playQueue := q, currentTrackId := Some cur\<rparr>"

definition focusApp :: "SessionType \<Rightarrow> int \<Rightarrow> App" where
  "focusApp t c =
     loadedApp\<lparr>focusState := \<lparr>isActive = True, sessionType = t, timeRemaining = 1,
                                workIntervalsInCycle = c\<rparr>\<rparr>"

text \<open>
  The four numeric settings, the frame of the view that edits one of them, the value a
  settings object holds under such a key, the largest value the edit view allows for it,
  and a run of scroll inputs.
\<close>

definition numericKeys :: "string set" where
  "numericKeys = {''workMinutes'', ''shortBreakMinutes'', ''longBreakMinutes'', ''longBreakInterval''}"

definition editFrame :: "string \<Rightarrow> int \<Rightarrow> ViewFrame" where
  "editFrame key v = \<lparr>view_id = ''focus-setting-edit/'' @ key, activeIndex = v\<rparr>"

definition numericSetting :: "string \<Rightarrow> FocusSettings \<Rightarrow> int" where
  "numericSetting key fs =
     (if key = ''workMinutes'' then workMinutes fs
      else if key = ''shortBreakMinutes'' then shortBreakMinutes fs
      else if key = ''longBreakMinutes'' then longBreakMinutes fs
      else longBreakInterval fs)"

definition upperBound :: "string \<Rightarrow> int" where
  "upperBound key = (if key = ''longBreakInterval'' then 10 else 90)"

definition scrolls :: "Host \<Rightarrow> int list \<Rightarrow> App \<Rightarrow> App" where
  "scrolls h ds a = foldl (\<lambda>s d. handleScroll h d s) a ds"

definition editApp :: "string \<Rightarrow> int \<Rightarrow> App" where
  "editApp key v =
     loadedApp\<lparr>navigationStack :=
                 [\<lparr>view_id = ''main'', activeIndex = 3\<rparr>, \<lparr>view_id = ''focus'', activeIndex = 3\<rparr>,
                  \<lparr>view_id = ''focus-settings'', activeIndex = 3\<rparr>] @ [editFrame key v]\<rparr>"

text \<open>
  Two runs of the program.  In \<open>resetTrace\<close> the user walks from the main menu to
  \<open>Focus\<close>, \<open>Settings\<close>, \<open>Reset Stats\<close>, chooses \<open>Yes, Reset All Stats\<close> and presses the
  back button twice before the action's storage requests have been answered.  In
  \<open>clearTrace\<close> an import that found no songs has led to the main menu; the user walks to
  \<open>Settings\<close>, \<open>Library Management\<close>, \<open>Clear Library\<close>, the library is found empty, and the
  user presses the back button three times before the two-second timeout runs.
\<close>

definition resetTrace :: "Event list" where
  "resetTrace =
     [Scroll 1, Scroll 1, Scroll 1, SelectClick, Scroll (- 1), SelectClick,
      Scroll (- 1), SelectClick, Scroll 1, SelectClick, MenuClick, MenuClick,
      Finish ResetStatsFinish]"

definition clearTrace :: "Event list" where
  "clearTrace =
     [FileChangeDone [], Scroll (- 1), SelectClick, Scroll 1, Scroll 1, Scroll 1, SelectClick,
      Scroll 1, SelectClick, KeysRead (Some []), MenuClick, MenuClick, MenuClick,
      Finish ClearLibraryGoBack]"

definition emptyApp :: App where
  "emptyApp = initializeApp None [] (initialApp 0 DEFAULT_COLORS)"

definition songsViewApp :: App where
  "songsViewApp =
     loadedApp\<lparr>navigationStack :=
                 [\<lparr>view_id = ''main'', activeIndex = 1\<rparr>, \<lparr>view_id = ''music'', activeIndex = 1\<rparr>,
                  \<lparr>view_id = ''songs'', activeIndex = 0\<rparr>]\<rparr>"





section \<open>Properties\<close>

text \<open>The definitions that running a sequence of events on a concrete state unfolds.\<close>

lemmas menu_defs = menuItems_def mainMenu_def focusMenu_def focusSettingsMenu_def
  focusResetConfirmMenu_def musicMenu_def settingsMenu_def libraryManagementMenu_def
  arrowItem_def plainItem_def pushView_def editItem_def showSetting_def settingOr_def
  songsMenu_def songItems_def songItem_def byTitle_def js_sort_def

lemmas handler_defs = step_def render_def handleScroll_def handleSelectClick_def handleMenuClick_def
  invokeAt_def invoke_def pushFrame_def setNavigationStack_def replaceTop_def slice_to_minus_def
  currentView_def startsWith_def secondSegment_def viewParam_def js_split_def js_rem_int_def
  finish_def clearLibraryKeysRead_def updateFocusSetting_def pause_def fileChangeDone_def

lemmas state_defs = loadedApp_def emptyApp_def initializeApp_def initialApp_def demoHost_def
  demoSong_def

lemma indexOf_Some_iff:
  "indexOf xs a = Some i \<longleftrightarrow> i < length xs \<and> xs ! i = a \<and> (\<forall>j<i. xs ! j \<noteq> a)"
proof (induction xs arbitrary: i)
  case Nil
  then show ?case by simp
next
  case (Cons b bs)
  show ?case
  proof (cases "b = a")
    case True
    then show ?thesis by (cases i) auto
  next
    case False
    show ?thesis
    proof (cases i)
      case 0
      with False show ?thesis by (simp split: option.splits)
    next
      case (Suc k)
      have "(\<forall>j<Suc k. (b # bs) ! j \<noteq> a) \<longleftrightarrow> (\<forall>j<k. bs ! j \<noteq> a)"
        using False by (auto simp: less_Suc_eq_0_disj)
      with False Suc Cons.IH [of k] show ?thesis
        by (auto split: option.splits)
    qed
  qed
qed

lemma indexOf_distinct:
  "distinct xs \<Longrightarrow> i < length xs \<Longrightarrow> indexOf xs (xs ! i) = Some i"
  by (auto simp: indexOf_Some_iff nth_eq_iff_index_eq)

lemma shuffle_loop_mset:
  assumes "\<forall>k. 0 \<le> rnd k \<and> rnd k < 1"
  shows "i < length xs \<or> i = 0 \<Longrightarrow> mset (shuffle_loop rnd k i xs) = mset xs"
proof (induction i arbitrary: k xs)
  case 0
  then show ?case by simp
next
  case (Suc i)
  then have len: "Suc i < length xs" by simp
  define j where "j = nat \<lfloor>rnd k * real (Suc i + 1)\<rfloor>"
  have "rnd k * real (Suc i + 1) < real (Suc i + 1)"
    using assms by (simp add: mult_less_cancel_right2 del: of_nat_Suc of_nat_add)
  then have "\<lfloor>rnd k * real (Suc i + 1)\<rfloor> < int (Suc i + 1)"
    by (simp add: floor_less_iff del: of_nat_Suc of_nat_add)
  then have "j \<le> Suc i" unfolding j_def by linarith
  with len have jl: "j < length xs" by simp
  have sw: "mset (xs[Suc i := xs ! j, j := xs ! Suc i]) = mset xs"
    using mset_swap [OF jl len] .
  have "mset (shuffle_loop rnd (Suc k) i (xs[Suc i := xs ! j, j := xs ! Suc i]))
          = mset (xs[Suc i := xs ! j, j := xs ! Suc i])"
    using len by (intro Suc.IH) simp
  with sw show ?case by (simp add: j_def Let_def)
qed

lemma mset_filter_neq:
  "mset xs = replicate_mset (count_list xs v) v + mset (filter (\<lambda>i. i \<noteq> v) xs)"
  by (induction xs) auto

subsection \<open>C1: entering Focus or Bounce while music plays\<close>

text \<open>
  C1, as amended.  While music is playing, the \<open>Focus\<close> action of the main menu pauses the
  transport: \<open>isPlaying\<close> becomes false and the audio element is paused, while the playback
  position, the duration, the media source, the current track and the queue stay as they
  were.  The \<open>Bounce\<close> action stops the transport instead: \<open>isPlaying\<close> becomes false and
  the current track and the queue are kept, but the media source is detached and the
  position and the duration are reset to 0.
\<close>

theorem enter_focus_pauses_enter_bounce_stops:
  assumes "isPlaying (playback a)"
  shows "label (mainMenu a ! 3) = ''Focus'' \<and> label (mainMenu a ! 4) = ''Bounce''
       \<and> playback (invoke h (action (mainMenu a ! 3)) a)
           = (playback a)\<lparr>audio_paused := True, isPlaying := False\<rparr>
       \<and> currentTrackId (invoke h (action (mainMenu a ! 3)) a) = currentTrackId a
       \<and> playQueue (invoke h (action (mainMenu a ! 3)) a) = playQueue a
       \<and> navigationStack (invoke h (action (mainMenu a ! 3)) a)
           = navigationStack a @ [\<lparr>view_id = ''focus'', activeIndex = 0\<rparr>]
       \<and> playback (invoke h (action (mainMenu a ! 4)) a)
           = (playback a)\<lparr>audio_paused := True, audio_src := None, isPlaying := False,
                          currentTime := 0, duration := 0\<rparr>
       \<and> currentTrackId (invoke h (action (mainMenu a ! 4)) a) = currentTrackId a
       \<and> playQueue (invoke h (action (mainMenu a ! 4)) a) = playQueue a
       \<and> navigationStack (invoke h (action (mainMenu a ! 4)) a)
           = navigationStack a @ [\<lparr>view_id = ''bounce-game'', activeIndex = 0\<rparr>]"
  using assms
  by (simp add: mainMenu_def arrowItem_def plainItem_def invoke_def stop_def pause_def pushFrame_def
      setNavigationStack_def setBounceGame_def Let_def)

theorem enter_focus_pauses_enter_bounce_stops_witness:
  "isPlaying (playback playingApp)
   \<and> currentTime (playback (invoke demoHost (action (mainMenu playingApp ! 3)) playingApp)) = 42
   \<and> \<not> isPlaying (playback (invoke demoHost (action (mainMenu playingApp ! 3)) playingApp))
   \<and> audio_src (playback (invoke demoHost (action (mainMenu playingApp ! 4)) playingApp)) = None
   \<and> playQueue (invoke demoHost (action (mainMenu playingApp ! 4)) playingApp) = [1, 2]"
proof -
  have p: "isPlaying (playback playingApp)"
    by (simp add: playingApp_def playingAt_def)
  show ?thesis
    using p enter_focus_pauses_enter_bounce_stops [OF p, of demoHost]
    by (simp add: playingApp_def playingAt_def)
qed

text \<open>
  Against C1 as stated: in a state in which track 1 is playing at 42 seconds, the action of
  the \<open>Bounce\<close> row of the main menu leaves the position at 0 and the source detached.
\<close>

theorem enter_bounce_resets_position:
  "isPlaying (playback playingApp)
   \<and> view_id (currentView playingApp) = ''main''
   \<and> label (fst (menuItems demoHost playingApp) ! 4) = ''Bounce''
   \<and> currentTime (playback playingApp) = 42
   \<and> currentTime (playback (invoke demoHost (action (fst (menuItems demoHost playingApp) ! 4)) playingApp)) = 0
   \<and> duration (playback (invoke demoHost (action (fst (menuItems demoHost playingApp) ! 4)) playingApp)) = 0
   \<and> audio_src (playback (invoke demoHost (action (fst (menuItems demoHost playingApp) ! 4)) playingApp)) = None"
  by (simp add: playingApp_def playingAt_def loadedApp_def initializeApp_def initialApp_def
      menuItems_def currentView_def mainMenu_def arrowItem_def plainItem_def invoke_def stop_def
      pushFrame_def setNavigationStack_def setBounceGame_def Let_def)

subsection \<open>C3: a track that does not resolve to playable media\<close>

lemma handleNext_cases:
  assumes "currentTrackId a = Some cur"
  shows "indexOf (playQueue a) cur = Some i \<Longrightarrow> i + 1 < length (playQueue a) \<Longrightarrow>
           handleNext a = a\<lparr>currentTrackId := Some (playQueue a ! (i + 1))\<rparr>"
    and "indexOf (playQueue a) cur = Some i \<Longrightarrow> i + 1 = length (playQueue a) \<Longrightarrow>
         repeatMode a = RepeatAll \<Longrightarrow>
           handleNext a = a\<lparr>currentTrackId := Some (playQueue a ! 0)\<rparr>"
    and "indexOf (playQueue a) cur = Some i \<Longrightarrow> i + 1 = length (playQueue a) \<Longrightarrow>
         repeatMode a \<noteq> RepeatAll \<Longrightarrow> handleNext a = a"
    and "indexOf (playQueue a) cur = None \<Longrightarrow> handleNext a = a"
proof -
  have ne: "playQueue a \<noteq> []" if "indexOf (playQueue a) cur = Some i" for i
    using that by auto
  show "indexOf (playQueue a) cur = Some i \<Longrightarrow> i + 1 < length (playQueue a) \<Longrightarrow>
           handleNext a = a\<lparr>currentTrackId := Some (playQueue a ! (i + 1))\<rparr>"
    using assms ne by (auto simp: handleNext_def)
  show "indexOf (playQueue a) cur = Some i \<Longrightarrow> i + 1 = length (playQueue a) \<Longrightarrow>
         repeatMode a = RepeatAll \<Longrightarrow>
           handleNext a = a\<lparr>currentTrackId := Some (playQueue a ! 0)\<rparr>"
    using assms ne by (auto simp: handleNext_def)
  show "indexOf (playQueue a) cur = Some i \<Longrightarrow> i + 1 = length (playQueue a) \<Longrightarrow>
         repeatMode a \<noteq> RepeatAll \<Longrightarrow> handleNext a = a"
    using assms ne by (auto simp: handleNext_def)
  show "indexOf (playQueue a) cur = None \<Longrightarrow> handleNext a = a"
    using assms by (simp add: handleNext_def)
qed

text \<open>
  C3, as amended.  When the effect that loads the current track finds no stored record
  for its id, or the storage read fails, it calls \<open>handleNext\<close> and raises nothing.  That
  makes the following queue entry the current track when the id is in the queue and not
  its last entry, and the first entry when it is the last one and the repeat mode is
  \<open>all\<close>; when it is the last entry with another repeat mode, or not in the queue, nothing
  changes and the unresolvable id stays current.  A stored record without a media blob
  is neither played nor skipped: the state stays as it is.  A record with a blob is
  played.
\<close>

theorem track_load_skips_unresolvable:
  assumes "currentTrackId a = Some cur"
  shows "trackLoadEffect Rejected a = handleNext a
       \<and> trackLoadEffect (Resolved None) a = handleNext a
       \<and> (\<forall>i. indexOf (playQueue a) cur = Some i \<and> i + 1 < length (playQueue a) \<longrightarrow>
              trackLoadEffect Rejected a = a\<lparr>currentTrackId := Some (playQueue a ! (i + 1))\<rparr>
            \<and> trackLoadEffect (Resolved None) a = a\<lparr>currentTrackId := Some (playQueue a ! (i + 1))\<rparr>)
       \<and> (\<forall>i. indexOf (playQueue a) cur = Some i \<and> i + 1 = length (playQueue a)
                \<and> repeatMode a = RepeatAll \<longrightarrow>
              trackLoadEffect Rejected a = a\<lparr>currentTrackId := Some (playQueue a ! 0)\<rparr>
            \<and> trackLoadEffect (Resolved None) a = a\<lparr>currentTrackId := Some (playQueue a ! 0)\<rparr>)
       \<and> ((\<exists>i. indexOf (playQueue a) cur = Some i \<and> i + 1 = length (playQueue a)
                \<and> repeatMode a \<noteq> RepeatAll)
            \<or> indexOf (playQueue a) cur = None \<longrightarrow>
              trackLoadEffect Rejected a = a \<and> trackLoadEffect (Resolved None) a = a)
       \<and> (fileBlob song = None \<longrightarrow> trackLoadEffect (Resolved (Some song)) a = a)
       \<and> (fileBlob song = Some blob \<longrightarrow>
            trackLoadEffect (Resolved (Some song)) a = a\<lparr>playback := play blob (playback a)\<rparr>)"
proof -
  have r: "trackLoadEffect Rejected a = handleNext a"
    and n: "trackLoadEffect (Resolved None) a = handleNext a"
    using assms by (simp_all add: trackLoadEffect_def)
  have b: "fileBlob song = None \<longrightarrow> trackLoadEffect (Resolved (Some song)) a = a"
    "fileBlob song = Some blob \<longrightarrow>
       trackLoadEffect (Resolved (Some song)) a = a\<lparr>playback := play blob (playback a)\<rparr>"
    using assms by (simp_all add: trackLoadEffect_def)
  show ?thesis
    unfolding r n using b handleNext_cases [OF assms] by blast
qed

theorem track_load_skips_unresolvable_witness:
  "currentTrackId (queueApp [1, 2] 1) = Some 1
   \<and> indexOf (playQueue (queueApp [1, 2] 1)) 1 = Some 0
   \<and> 0 + 1 < length (playQueue (queueApp [1, 2] 1))
   \<and> currentTrackId (trackLoadEffect Rejected (queueApp [1, 2] 1)) = Some 2
   \<and> currentTrackId (trackLoadEffect (Resolved None) (queueApp [1, 2] 1)) = Some 2
   \<and> currentTrackId ((queueApp [1, 2] 2)\<lparr>repeatMode := RepeatAll\<rparr>) = Some 2
   \<and> indexOf (playQueue ((queueApp [1, 2] 2)\<lparr>repeatMode := RepeatAll\<rparr>)) 2 = Some 1
   \<and> currentTrackId (trackLoadEffect (Resolved None) ((queueApp [1, 2] 2)\<lparr>repeatMode := RepeatAll\<rparr>))
       = Some 1
   \<and> currentTrackId (queueApp [1, 2] 7) = Some 7
   \<and> indexOf (playQueue (queueApp [1, 2] 7)) 7 = None
   \<and> trackLoadEffect (Resolved None) (queueApp [1, 2] 7) = queueApp [1, 2] 7
   \<and> currentTrackId (queueApp [1, 2] 2) = Some 2
   \<and> indexOf (playQueue (queueApp [1, 2] 2)) 2 = Some 1
   \<and> repeatMode (queueApp [1, 2] 2) \<noteq> RepeatAll
   \<and> trackLoadEffect Rejected (queueApp [1, 2] 2) = queueApp [1, 2] 2
   \<and> fileBlob ((demoSong 1 ''b'')\<lparr>fileBlob := None\<rparr>) = None
   \<and> trackLoadEffect (Resolved (Some ((demoSong 1 ''b'')\<lparr>fileBlob := None\<rparr>))) (queueApp [1, 2] 1)
       = queueApp [1, 2] 1
   \<and> fileBlob (demoSong 1 ''b'') = Some 1
   \<and> audio_src (playback (trackLoadEffect (Resolved (Some (demoSong 1 ''b''))) (queueApp [1, 2] 1)))
       = Some 1"
proof -
  have c1: "currentTrackId (queueApp [1, 2] 1) = Some 1"
    and c2: "currentTrackId ((queueApp [1, 2] 2)\<lparr>repeatMode := RepeatAll\<rparr>) = Some 2"
    and c7: "currentTrackId (queueApp [1, 2] 7) = Some 7"
    and c3: "currentTrackId (queueApp [1, 2] 2) = Some 2"
    by (simp_all add: queueApp_def)
  have i1: "indexOf (playQueue (queueApp [1, 2] 1)) 1 = Some 0
              \<and> 0 + 1 < length (playQueue (queueApp [1, 2] 1))"
    and i2: "indexOf (playQueue ((queueApp [1, 2] 2)\<lparr>repeatMode := RepeatAll\<rparr>)) 2 = Some 1
              \<and> 1 + 1 = length (playQueue ((queueApp [1, 2] 2)\<lparr>repeatMode := RepeatAll\<rparr>))
              \<and> repeatMode ((queueApp [1, 2] 2)\<lparr>repeatMode := RepeatAll\<rparr>) = RepeatAll"
    and i7: "indexOf (playQueue (queueApp [1, 2] 7)) 7 = None"
    and i3: "indexOf (playQueue (queueApp [1, 2] 2)) 2 = Some 1
              \<and> 1 + 1 = length (playQueue (queueApp [1, 2] 2))
              \<and> repeatMode (queueApp [1, 2] 2) \<noteq> RepeatAll"
    by (simp_all add: queueApp_def loadedApp_def initializeApp_def initialApp_def Let_def)
  note t1 = track_load_skips_unresolvable [OF c1, of "(demoSong 1 ''b'')\<lparr>fileBlob := None\<rparr>" 1]
  note t1' = track_load_skips_unresolvable [OF c1, of "demoSong 1 ''b''" 1]
  note t2 = track_load_skips_unresolvable [OF c2, of "demoSong 1 ''b''" 1]
  note t7 = track_load_skips_unresolvable [OF c7, of "demoSong 1 ''b''" 1]
  note t3 = track_load_skips_unresolvable [OF c3, of "demoSong 1 ''b''" 1]
  have s1: "trackLoadEffect Rejected (queueApp [1, 2] 1)
              = (queueApp [1, 2] 1)\<lparr>currentTrackId := Some (playQueue (queueApp [1, 2] 1) ! (0 + 1))\<rparr>"
    "trackLoadEffect (Resolved None) (queueApp [1, 2] 1)
              = (queueApp [1, 2] 1)\<lparr>currentTrackId := Some (playQueue (queueApp [1, 2] 1) ! (0 + 1))\<rparr>"
    using t1 i1 by blast+
  have s2: "trackLoadEffect (Resolved None) ((queueApp [1, 2] 2)\<lparr>repeatMode := RepeatAll\<rparr>)
              = ((queueApp [1, 2] 2)\<lparr>repeatMode := RepeatAll\<rparr>)
                  \<lparr>currentTrackId := Some (playQueue ((queueApp [1, 2] 2)\<lparr>repeatMode := RepeatAll\<rparr>) ! 0)\<rparr>"
    using t2 i2 by blast
  have s7: "trackLoadEffect (Resolved None) (queueApp [1, 2] 7) = queueApp [1, 2] 7"
    using t7 i7 by blast
  have s3: "trackLoadEffect Rejected (queueApp [1, 2] 2) = queueApp [1, 2] 2"
    using t3 i3 by blast
  have b0: "trackLoadEffect (Resolved (Some ((demoSong 1 ''b'')\<lparr>fileBlob := None\<rparr>))) (queueApp [1, 2] 1)
              = queueApp [1, 2] 1"
    using t1 by simp
  have b1: "trackLoadEffect (Resolved (Some (demoSong 1 ''b''))) (queueApp [1, 2] 1)
              = (queueApp [1, 2] 1)\<lparr>playback := play 1 (playback (queueApp [1, 2] 1))\<rparr>"
    using t1' by (simp add: demoSong_def)
  show ?thesis
    unfolding s1 s2 s7 s3 b0 b1
    by (simp add: queueApp_def demoSong_def play_def loadedApp_def initializeApp_def
        initialApp_def Let_def)
qed

text \<open>
  Against C3 as stated.  With queue \<open>[1, 2]\<close> and current track 1, \<open>handleNext\<close> would move
  to track 2, but when the stored record of track 1 has no media blob the effect leaves
  the state untouched.  And with current track 2, the last entry, and repeat off, a
  missing record or a failed read calls \<open>handleNext\<close>, which changes nothing: there is no
  skip, and track 2 stays current.
\<close>

theorem track_load_without_skip:
  "currentTrackId playingApp = Some 1
   \<and> currentTrackId (handleNext playingApp) = Some 2
   \<and> currentTrackId
        (trackLoadEffect (Resolved (Some ((demoSong 1 ''b'')\<lparr>fileBlob := None\<rparr>))) playingApp) = Some 1
   \<and> trackLoadEffect (Resolved (Some ((demoSong 1 ''b'')\<lparr>fileBlob := None\<rparr>))) playingApp
        \<noteq> handleNext playingApp
   \<and> playQueue (queueApp [1, 2] 2) = [1, 2] \<and> currentTrackId (queueApp [1, 2] 2) = Some 2
   \<and> repeatMode (queueApp [1, 2] 2) = RepeatOff
   \<and> trackLoadEffect (Resolved None) (queueApp [1, 2] 2) = queueApp [1, 2] 2
   \<and> trackLoadEffect Rejected (queueApp [1, 2] 2) = queueApp [1, 2] 2"
proof -
  have e: "trackLoadEffect (Resolved (Some ((demoSong 1 ''b'')\<lparr>fileBlob := None\<rparr>))) playingApp
             = playingApp"
    by (simp add: playingApp_def trackLoadEffect_def demoSong_def)
  have c: "currentTrackId playingApp = Some 1"
    by (simp add: playingApp_def)
  have n: "currentTrackId (handleNext playingApp) = Some 2"
    by (simp add: playingApp_def handleNext_def)
  from c n have d: "handleNext playingApp \<noteq> playingApp" by auto
  have q: "playQueue (queueApp [1, 2] 2) = [1, 2]" "currentTrackId (queueApp [1, 2] 2) = Some 2"
    "repeatMode (queueApp [1, 2] 2) = RepeatOff"
    by (simp_all add: queueApp_def loadedApp_def initializeApp_def initialApp_def Let_def)
  have l: "trackLoadEffect (Resolved None) (queueApp [1, 2] 2) = queueApp [1, 2] 2"
    "trackLoadEffect Rejected (queueApp [1, 2] 2) = queueApp [1, 2] 2"
    using q by (simp_all add: trackLoadEffect_def handleNext_def)
  from e c n d q l show ?thesis by simp
qed

subsection \<open>C5: playing a song with shuffle on\<close>

text \<open>
  C5, as amended.  With shuffle on and \<open>Math.random()\<close> in \<open>[0, 1)\<close>, playing song \<open>sid\<close>
  with context list \<open>ctx\<close> makes \<open>sid\<close> the current track and the first element of the
  queue, and the queue is a permutation of \<open>ctx\<close> exactly when \<open>sid\<close> occurs in \<open>ctx\<close>
  once (the selected id is taken out of the list, the rest is shuffled by swaps, and the
  id is put in front).
\<close>

theorem shuffled_play_pins_selected:
  assumes "shuffleMode a" and "\<forall>k. 0 \<le> math_random h k \<and> math_random h k < 1"
  shows "playQueue (createPlayAction h sid ctx a) ! 0 = sid
       \<and> currentTrackId (createPlayAction h sid ctx a) = Some sid
       \<and> (mset (playQueue (createPlayAction h sid ctx a)) = mset ctx \<longleftrightarrow> count_list ctx sid = 1)"
proof -
  define rest where "rest = filter (\<lambda>i. i \<noteq> sid) ctx"
  define out where "out = shuffle_loop (math_random h) 0 (length rest - 1) rest"
  have q: "playQueue (createPlayAction h sid ctx a) = sid # out"
    using assms(1) by (simp add: createPlayAction_def Let_def out_def rest_def)
  have "length rest - 1 < length rest \<or> length rest - 1 = 0" by (cases rest) auto
  then have m: "mset out = mset rest"
    unfolding out_def using shuffle_loop_mset [OF assms(2)] by blast
  have c: "mset ctx = replicate_mset (count_list ctx sid) sid + mset rest"
    unfolding rest_def by (rule mset_filter_neq)
  have "add_mset sid (mset rest) = replicate_mset (count_list ctx sid) sid + mset rest
          \<longleftrightarrow> count_list ctx sid = 1"
  proof
    assume eq: "add_mset sid (mset rest) = replicate_mset (count_list ctx sid) sid + mset rest"
    have "size (add_mset sid (mset rest))
            = size (replicate_mset (count_list ctx sid) sid + mset rest)"
      by (rule arg_cong [OF eq])
    then show "count_list ctx sid = 1" by simp
  next
    assume "count_list ctx sid = 1"
    then show "add_mset sid (mset rest) = replicate_mset (count_list ctx sid) sid + mset rest"
      by simp
  qed
  then have "mset (sid # out) = mset ctx \<longleftrightarrow> count_list ctx sid = 1"
    unfolding c using m by simp
  moreover have "currentTrackId (createPlayAction h sid ctx a) = Some sid"
    by (simp add: createPlayAction_def Let_def)
  ultimately show ?thesis
    unfolding q by simp
qed

theorem shuffled_play_pins_selected_witness:
  "shuffleMode (playingApp\<lparr>shuffleMode := True\<rparr>)
   \<and> (\<forall>k. 0 \<le> math_random demoHost k \<and> math_random demoHost k < 1)
   \<and> count_list [2, 3, 4, 5] (3::int) = 1
   \<and> playQueue (createPlayAction demoHost 3 [2, 3, 4, 5] (playingApp\<lparr>shuffleMode := True\<rparr>))
        = [3, 2, 5, 4]
   \<and> mset (playQueue (createPlayAction demoHost 3 [2, 3, 4, 5] (playingApp\<lparr>shuffleMode := True\<rparr>)))
        = mset [2, 3, 4, 5]"
proof -
  have s: "shuffleMode (playingApp\<lparr>shuffleMode := True\<rparr>)" by simp
  have r: "\<forall>k. 0 \<le> math_random demoHost k \<and> math_random demoHost k < 1"
    by (simp add: demoHost_def)
  have c: "count_list [2, 3, 4, 5] (3::int) = 1" by simp
  have e: "playQueue (createPlayAction demoHost 3 [2, 3, 4, 5] (playingApp\<lparr>shuffleMode := True\<rparr>))
             = [3, 2, 5, 4]"
    by (simp add: createPlayAction_def demoHost_def Let_def eval_nat_numeral)
  show ?thesis
    using s r c e shuffled_play_pins_selected [OF s r, of 3 "[2, 3, 4, 5]"]
    by simp
qed

text \<open>
  Against C5 as stated: playing song 1 with the context list \<open>[2, 3]\<close>, which does not
  hold it, gives the queue \<open>[1, 2, 3]\<close>, and playing it with \<open>[1, 1, 2]\<close>, which holds it
  twice, gives \<open>[1, 2]\<close>; neither is a permutation of the context list.
\<close>

theorem shuffled_play_not_permutation:
  "shuffleMode (playingApp\<lparr>shuffleMode := True\<rparr>)
   \<and> playQueue (createPlayAction demoHost 1 [2, 3] (playingApp\<lparr>shuffleMode := True\<rparr>)) = [1, 2, 3]
   \<and> mset [1, 2, 3] \<noteq> mset [2, 3 :: int]
   \<and> playQueue (createPlayAction demoHost 1 [1, 1, 2] (playingApp\<lparr>shuffleMode := True\<rparr>)) = [1, 2]
   \<and> mset [1, 2] \<noteq> mset [1, 1, 2 :: int]"
  by (simp add: createPlayAction_def demoHost_def Let_def)

subsection \<open>C8: next, then previous\<close>

text \<open>
  C8, as amended.  In a queue without repeated track ids, with the current track at a
  position that is neither the first nor the last, \<open>next()\<close> followed by \<open>prev()\<close> returns
  to the original current track when the playback position at the time of \<open>prev()\<close> is
  at most 3 seconds; when it is more than 3 seconds, \<open>prev()\<close> seeks to 0 and stays on
  the track \<open>next()\<close> moved to.
\<close>

theorem next_then_prev_returns:
  assumes "distinct (playQueue a)"
    and "currentTrackId a = Some (playQueue a ! i)"
    and "0 < i" and "i + 1 < length (playQueue a)"
  shows "(currentTime p \<le> 3 \<longrightarrow>
            currentTrackId (handlePrev ((handleNext a)\<lparr>playback := p\<rparr>)) = currentTrackId a)
       \<and> (currentTime p > 3 \<longrightarrow>
            handlePrev ((handleNext a)\<lparr>playback := p\<rparr>) = (handleNext a)\<lparr>playback := seek 0 p\<rparr>)"
proof -
  let ?q = "playQueue a"
  have ne: "?q \<noteq> []" using assms(4) by auto
  have ix: "indexOf ?q (?q ! i) = Some i"
    using assms by (simp add: indexOf_distinct)
  have nx: "handleNext a = a\<lparr>currentTrackId := Some (?q ! (i + 1))\<rparr>"
    using assms ne ix by (simp add: handleNext_def)
  have ix2: "indexOf ?q (?q ! (i + 1)) = Some (i + 1)"
    using assms by (simp add: indexOf_distinct)
  show ?thesis
    using assms ne ix2 by (simp add: nx handlePrev_def)
qed

theorem next_then_prev_returns_witness:
  "distinct (playQueue (queueApp [1, 2, 3, 4] 2))
   \<and> currentTrackId (queueApp [1, 2, 3, 4] 2) = Some (playQueue (queueApp [1, 2, 3, 4] 2) ! 1)
   \<and> (0::nat) < 1 \<and> 1 + 1 < length (playQueue (queueApp [1, 2, 3, 4] 2))
   \<and> currentTime (playingAt 2) \<le> 3
   \<and> currentTrackId (handleNext (queueApp [1, 2, 3, 4] 2)) = Some 3
   \<and> currentTrackId (handlePrev ((handleNext (queueApp [1, 2, 3, 4] 2))\<lparr>playback := playingAt 2\<rparr>))
        = Some 2
   \<and> currentTime (playingAt 5) > 3
   \<and> currentTrackId (handlePrev ((handleNext (queueApp [1, 2, 3, 4] 2))\<lparr>playback := playingAt 5\<rparr>))
        = Some 3"
proof -
  have d: "distinct (playQueue (queueApp [1, 2, 3, 4] 2))"
    by (simp add: queueApp_def)
  have c: "currentTrackId (queueApp [1, 2, 3, 4] 2) = Some (playQueue (queueApp [1, 2, 3, 4] 2) ! 1)"
    by (simp add: queueApp_def)
  have l: "1 + 1 < length (playQueue (queueApp [1, 2, 3, 4] 2))"
    by (simp add: queueApp_def)
  have n: "currentTrackId (handleNext (queueApp [1, 2, 3, 4] 2)) = Some 3"
    by (simp add: queueApp_def handleNext_def)
  show ?thesis
    using d c l n
      next_then_prev_returns [OF d c zero_less_one l, of "playingAt 2"]
      next_then_prev_returns [OF d c zero_less_one l, of "playingAt 5"]
    by (simp add: playingAt_def queueApp_def)
qed

text \<open>
  Against C8 as stated: in the queue \<open>[1, 2, 3, 2, 4]\<close> track 3 is at position 2, neither
  first nor last; \<open>next()\<close> moves to track 2 and \<open>prev()\<close>, at position 0 seconds, then
  moves to track 1, because \<open>indexOf\<close> finds track 2 at position 1.
\<close>

theorem next_then_prev_repeated_id:
  "indexOf (playQueue (queueApp [1, 2, 3, 2, 4] 3)) 3 = Some 2
   \<and> currentTrackId (queueApp [1, 2, 3, 2, 4] 3) = Some 3
   \<and> currentTime (playback (handleNext (queueApp [1, 2, 3, 2, 4] 3))) \<le> 3
   \<and> currentTrackId (handleNext (queueApp [1, 2, 3, 2, 4] 3)) = Some 2
   \<and> currentTrackId (handlePrev (handleNext (queueApp [1, 2, 3, 2, 4] 3))) = Some 1"
  by (simp add: queueApp_def loadedApp_def initializeApp_def initialApp_def handleNext_def
      handlePrev_def Let_def)

subsection \<open>C7: the cycle of focus sessions\<close>

lemma handleSessionEnd_fields:
  assumes "focusSettings a = Some fs"
    and "sessionStored st (sessionType (focusState a))"
  shows "focusSettings (handleSessionEnd st a) = Some fs"
    and "sessionType (focusState a) = Work \<Longrightarrow>
           sessionType (focusState (handleSessionEnd st a))
             = (if workIntervalsInCycle (focusState a) + 1 < longBreakInterval fs
                then ShortBreak else LongBreak)
         \<and> workIntervalsInCycle (focusState (handleSessionEnd st a))
             = (if workIntervalsInCycle (focusState a) + 1 < longBreakInterval fs
                then workIntervalsInCycle (focusState a) + 1 else 0)"
    and "sessionType (focusState a) \<noteq> Work \<Longrightarrow>
           sessionType (focusState (handleSessionEnd st a)) = Work
         \<and> workIntervalsInCycle (focusState (handleSessionEnd st a))
             = workIntervalsInCycle (focusState a)"
  using assms by (simp_all add: handleSessionEnd_def Let_def)

lemma handleSessionEnd_rejected:
  assumes "focusSettings a = Some fs"
    and "\<not> sessionStored st (sessionType (focusState a))"
  shows "focusState (handleSessionEnd st a) = focusState a"
  using assms by (simp add: handleSessionEnd_def Let_def)

lemma focusTick_at_zero:
  assumes "isActive (focusState a)" and "sessionType (focusState a) \<noteq> IdleSession"
    and "timeRemaining (focusState a) \<le> 1"
  shows "focusTick st a
           = handleSessionEnd st
               (a\<lparr>focusState := (focusState a)\<lparr>isActive := False, timeRemaining := 0\<rparr>\<rparr>)"
  using assms by (simp add: focusTick_def Let_def)

lemma handleSessionEnd_ignores_clock:
  "focusSettings a = Some fs \<Longrightarrow> sessionStored st (sessionType (focusState a)) \<Longrightarrow>
   handleSessionEnd st (a\<lparr>focusState := (focusState a)\<lparr>isActive := b, timeRemaining := t\<rparr>\<rparr>)
     = handleSessionEnd st a"
  by (simp add: handleSessionEnd_def Let_def)

lemma sessionStored_Stored: "sessionStored Stored t"
  by (simp add: sessionStored_def)

lemma work_cycle:
  assumes "focusSettings a = Some fs"
    and "sessionType (focusState a) = Work"
    and "workIntervalsInCycle (focusState a) = 0"
  shows "int k < longBreakInterval fs \<Longrightarrow>
           focusSettings ((handleSessionEnd Stored ^^ (2 * k)) a) = Some fs
         \<and> sessionType (focusState ((handleSessionEnd Stored ^^ (2 * k)) a)) = Work
         \<and> workIntervalsInCycle (focusState ((handleSessionEnd Stored ^^ (2 * k)) a)) = int k"
proof (induction k)
  case 0
  then show ?case using assms by simp
next
  case (Suc k)
  let ?b = "(handleSessionEnd Stored ^^ (2 * k)) a"
  let ?c = "handleSessionEnd Stored ?b"
  from Suc have b: "focusSettings ?b = Some fs" "sessionType (focusState ?b) = Work"
    "workIntervalsInCycle (focusState ?b) = int k" by auto
  have lt: "int k + 1 < longBreakInterval fs" using Suc.prems by simp
  have c: "focusSettings ?c = Some fs" "sessionType (focusState ?c) = ShortBreak"
    "workIntervalsInCycle (focusState ?c) = int k + 1"
    using handleSessionEnd_fields(1,2) [OF b(1) sessionStored_Stored] b(2,3) lt by auto
  have "sessionType (focusState ?c) \<noteq> Work" using c(2) by simp
  then have d: "focusSettings (handleSessionEnd Stored ?c) = Some fs"
    "sessionType (focusState (handleSessionEnd Stored ?c)) = Work"
    "workIntervalsInCycle (focusState (handleSessionEnd Stored ?c)) = int k + 1"
    using handleSessionEnd_fields(1,3) [OF c(1) sessionStored_Stored] c(3) by auto
  have "(handleSessionEnd Stored ^^ (2 * Suc k)) a = handleSessionEnd Stored ?c" by simp
  with d show ?case by simp
qed

text \<open>
  C7, as amended.  With settings loaded, and when the storage requests that
  \<open>handleSessionEnd\<close> awaits resolve (\<open>sessionStored\<close>): the tick at which \<open>timeRemaining\<close>
  reaches zero ends the session as \<open>handleSessionEnd\<close> does; a completed work session is
  followed by a short break when \<open>workIntervalsInCycle + 1 < longBreakInterval\<close>, with the
  counter incremented, and by a long break with the counter reset to 0 otherwise; a
  completed break is followed by a work session with the counter unchanged.  When a
  request is rejected, the session does not advance: \<open>handleSessionEnd\<close> leaves the focus
  state as it is, and the tick at zero leaves the session at its type and counter with
  \<open>timeRemaining = 0\<close> and inactive.  Hence, with storage answering, starting a cycle at a
  work session with counter 0: after \<open>k\<close> work sessions and their breaks
  (\<open>2 * k\<close> ended sessions, \<open>k < longBreakInterval\<close>) the counter is \<open>k\<close>, and ending the
  next work session leads to a short break while \<open>k + 1 < longBreakInterval\<close> and, at
  \<open>k + 1 = longBreakInterval\<close>, to the long break with the counter back at 0.
\<close>

theorem session_type_cycle:
  assumes "focusSettings a = Some fs"
  shows "(sessionStored st (sessionType (focusState a)) \<longrightarrow>
            (isActive (focusState a) \<and> sessionType (focusState a) \<noteq> IdleSession
               \<and> timeRemaining (focusState a) \<le> 1 \<longrightarrow> focusTick st a = handleSessionEnd st a)
          \<and> (sessionType (focusState a) = Work \<longrightarrow>
               sessionType (focusState (handleSessionEnd st a))
                 = (if workIntervalsInCycle (focusState a) + 1 < longBreakInterval fs
                    then ShortBreak else LongBreak)
             \<and> workIntervalsInCycle (focusState (handleSessionEnd st a))
                 = (if workIntervalsInCycle (focusState a) + 1 < longBreakInterval fs
                    then workIntervalsInCycle (focusState a) + 1 else 0))
          \<and> (sessionType (focusState a) = ShortBreak \<or> sessionType (focusState a) = LongBreak \<longrightarrow>
               sessionType (focusState (handleSessionEnd st a)) = Work
             \<and> workIntervalsInCycle (focusState (handleSessionEnd st a))
                 = workIntervalsInCycle (focusState a)))
       \<and> (\<not> sessionStored st (sessionType (focusState a)) \<longrightarrow>
            focusState (handleSessionEnd st a) = focusState a
          \<and> (isActive (focusState a) \<and> sessionType (focusState a) \<noteq> IdleSession
               \<and> timeRemaining (focusState a) \<le> 1 \<longrightarrow>
               focusState (focusTick st a)
                 = (focusState a)\<lparr>isActive := False, timeRemaining := 0\<rparr>))
       \<and> (sessionType (focusState a) = Work \<and> workIntervalsInCycle (focusState a) = 0 \<longrightarrow>
            (\<forall>k. int k < longBreakInterval fs \<longrightarrow>
               sessionType (focusState ((handleSessionEnd Stored ^^ (2 * k)) a)) = Work
             \<and> workIntervalsInCycle (focusState ((handleSessionEnd Stored ^^ (2 * k)) a)) = int k
             \<and> sessionType (focusState ((handleSessionEnd Stored ^^ (2 * k + 1)) a))
                 = (if int k + 1 < longBreakInterval fs then ShortBreak else LongBreak)
             \<and> workIntervalsInCycle (focusState ((handleSessionEnd Stored ^^ (2 * k + 1)) a))
                 = (if int k + 1 < longBreakInterval fs then int k + 1 else 0)))"
proof (intro conjI impI allI)
  assume ok: "sessionStored st (sessionType (focusState a))"
  assume "isActive (focusState a) \<and> sessionType (focusState a) \<noteq> IdleSession
            \<and> timeRemaining (focusState a) \<le> 1"
  then show "focusTick st a = handleSessionEnd st a"
    using focusTick_at_zero [of a st] handleSessionEnd_ignores_clock [OF assms ok] by simp
next
  assume ok: "sessionStored st (sessionType (focusState a))"
  assume "sessionType (focusState a) = Work"
  then show "sessionType (focusState (handleSessionEnd st a))
              = (if workIntervalsInCycle (focusState a) + 1 < longBreakInterval fs
                 then ShortBreak else LongBreak)"
    and "workIntervalsInCycle (focusState (handleSessionEnd st a))
              = (if workIntervalsInCycle (focusState a) + 1 < longBreakInterval fs
                 then workIntervalsInCycle (focusState a) + 1 else 0)"
    using handleSessionEnd_fields(2) [OF assms ok] by auto
next
  assume ok: "sessionStored st (sessionType (focusState a))"
  assume "sessionType (focusState a) = ShortBreak \<or> sessionType (focusState a) = LongBreak"
  then have "sessionType (focusState a) \<noteq> Work" by auto
  then show "sessionType (focusState (handleSessionEnd st a)) = Work"
    and "workIntervalsInCycle (focusState (handleSessionEnd st a))
              = workIntervalsInCycle (focusState a)"
    using handleSessionEnd_fields(3) [OF assms ok] by auto
next
  assume no: "\<not> sessionStored st (sessionType (focusState a))"
  show "focusState (handleSessionEnd st a) = focusState a"
    by (rule handleSessionEnd_rejected [OF assms no])
  assume z: "isActive (focusState a) \<and> sessionType (focusState a) \<noteq> IdleSession
               \<and> timeRemaining (focusState a) \<le> 1"
  let ?a' = "a\<lparr>focusState := (focusState a)\<lparr>isActive := False, timeRemaining := 0\<rparr>\<rparr>"
  have "focusTick st a = handleSessionEnd st ?a'"
    using z focusTick_at_zero [of a st] by simp
  moreover have "focusState (handleSessionEnd st ?a') = focusState ?a'"
    using assms no by (intro handleSessionEnd_rejected) simp_all
  ultimately show "focusState (focusTick st a)
                     = (focusState a)\<lparr>isActive := False, timeRemaining := 0\<rparr>"
    by simp
next
  fix k
  assume s: "sessionType (focusState a) = Work \<and> workIntervalsInCycle (focusState a) = 0"
    and k: "int k < longBreakInterval fs"
  let ?b = "(handleSessionEnd Stored ^^ (2 * k)) a"
  have b: "focusSettings ?b = Some fs" "sessionType (focusState ?b) = Work"
    "workIntervalsInCycle (focusState ?b) = int k"
    using work_cycle [OF assms, of k] s k by auto
  show "sessionType (focusState ?b) = Work" by (rule b(2))
  show "workIntervalsInCycle (focusState ?b) = int k" by (rule b(3))
  have e: "(handleSessionEnd Stored ^^ (2 * k + 1)) a = handleSessionEnd Stored ?b" by simp
  show "sessionType (focusState ((handleSessionEnd Stored ^^ (2 * k + 1)) a))
                 = (if int k + 1 < longBreakInterval fs then ShortBreak else LongBreak)"
    unfolding e using handleSessionEnd_fields(2) [OF b(1) sessionStored_Stored b(2)] b(3) by simp
  show "workIntervalsInCycle (focusState ((handleSessionEnd Stored ^^ (2 * k + 1)) a))
                 = (if int k + 1 < longBreakInterval fs then int k + 1 else 0)"
    unfolding e using handleSessionEnd_fields(2) [OF b(1) sessionStored_Stored b(2)] b(3) by simp
qed

lemma focusApp_fields:
  "focusSettings (focusApp t c) = Some DEFAULT_FOCUS_SETTINGS"
  "focusState (focusApp t c)
     = \<lparr>isActive = True, sessionType = t, timeRemaining = 1, workIntervalsInCycle = c\<rparr>"
  "longBreakInterval DEFAULT_FOCUS_SETTINGS = 4"
  by (simp_all add: focusApp_def loadedApp_def initializeApp_def initialApp_def Let_def
      DEFAULT_FOCUS_SETTINGS_def)

theorem session_type_cycle_witness:
  "focusSettings (focusApp Work 3) = Some DEFAULT_FOCUS_SETTINGS
   \<and> sessionStored Stored (sessionType (focusState (focusApp Work 3)))
   \<and> isActive (focusState (focusApp Work 3)) \<and> timeRemaining (focusState (focusApp Work 3)) \<le> 1
   \<and> sessionType (focusState (focusTick Stored (focusApp Work 3))) = LongBreak
   \<and> workIntervalsInCycle (focusState (focusTick Stored (focusApp Work 3))) = 0
   \<and> sessionType (focusState (handleSessionEnd Stored (focusApp ShortBreak 2))) = Work
   \<and> workIntervalsInCycle (focusState (handleSessionEnd Stored (focusApp ShortBreak 2))) = 2
   \<and> \<not> sessionStored AddRejected (sessionType (focusState (focusApp Work 3)))
   \<and> focusState (focusTick AddRejected (focusApp Work 3))
       = \<lparr>isActive = False, sessionType = Work, timeRemaining = 0, workIntervalsInCycle = 3\<rparr>
   \<and> int 3 < longBreakInterval DEFAULT_FOCUS_SETTINGS
   \<and> sessionType (focusState ((handleSessionEnd Stored ^^ (2 * 3)) (focusApp Work 0))) = Work
   \<and> workIntervalsInCycle (focusState ((handleSessionEnd Stored ^^ (2 * 3)) (focusApp Work 0))) = 3
   \<and> sessionType (focusState ((handleSessionEnd Stored ^^ (2 * 3 + 1)) (focusApp Work 0))) = LongBreak
   \<and> workIntervalsInCycle (focusState ((handleSessionEnd Stored ^^ (2 * 3 + 1)) (focusApp Work 0))) = 0
   \<and> sessionType (focusState ((handleSessionEnd Stored ^^ (2 * 1 + 1)) (focusApp Work 0))) = ShortBreak"
  using session_type_cycle [OF focusApp_fields(1), of Stored Work 3]
    session_type_cycle [OF focusApp_fields(1), of Stored ShortBreak 2]
    session_type_cycle [OF focusApp_fields(1), of AddRejected Work 3]
    session_type_cycle [OF focusApp_fields(1), of Stored Work 0, THEN conjunct2, THEN conjunct2,
      rule_format, of 3]
    session_type_cycle [OF focusApp_fields(1), of Stored Work 0, THEN conjunct2, THEN conjunct2,
      rule_format, of 1]
  by (simp add: focusApp_fields sessionStored_def)

text \<open>
  Against C7 as stated: a work session with counter 3 and \<open>longBreakInterval = 4\<close> reaches
  zero.  When the write of the completed session is rejected, or the statistics read
  after it, the session does not advance to the long break: it stays a work session with
  counter 3, at 0 seconds and inactive.  (With storage answering it becomes the long
  break with counter 0.)
\<close>

theorem session_stalls_on_rejected_write:
  "focusSettings (focusApp Work 3) = Some DEFAULT_FOCUS_SETTINGS
   \<and> longBreakInterval DEFAULT_FOCUS_SETTINGS = 4
   \<and> focusState (focusApp Work 3)
       = \<lparr>isActive = True, sessionType = Work, timeRemaining = 1, workIntervalsInCycle = 3\<rparr>
   \<and> focusState (focusTick AddRejected (focusApp Work 3))
       = \<lparr>isActive = False, sessionType = Work, timeRemaining = 0, workIntervalsInCycle = 3\<rparr>
   \<and> focusState (focusTick StatsRejected (focusApp Work 3))
       = \<lparr>isActive = False, sessionType = Work, timeRemaining = 0, workIntervalsInCycle = 3\<rparr>
   \<and> sessionType (focusState (focusTick Stored (focusApp Work 3))) = LongBreak"
  by (simp add: focusApp_fields focusTick_def handleSessionEnd_def sessionStored_def Let_def)

subsection \<open>C10: the value edited in a focus-setting view\<close>

lemma edit_view_key:
  assumes "key \<in> numericKeys"
  shows "startsWith (''focus-setting-edit/'' @ key) ''focus-setting-edit/''"
    and "secondSegment (''focus-setting-edit/'' @ key) = key"
    and "''focus-setting-edit/'' @ key \<noteq> ''bounce-game''"
  using assms
  by (auto simp: numericKeys_def startsWith_def secondSegment_def viewParam_def js_split_def)

lemma edit_view_current:
  assumes "navigationStack a = below @ [editFrame key v]"
  shows "view_id (currentView a) = ''focus-setting-edit/'' @ key"
    and "activeIndex (currentView a) = v"
  by (simp_all add: currentView_def assms editFrame_def)

lemma handleScroll_edit_unfold:
  assumes "key \<in> numericKeys"
    and "navigationStack a = below @ [editFrame key v]"
  shows "handleScroll h d a
           = setNavigationStack
              (\<lambda>stack.
                 let newValue = activeIndex (last stack) + d
                 in replaceTop (if key = ''longBreakInterval'' then clamp 1 10 newValue
                                else clamp 1 90 newValue) stack) a"
  unfolding handleScroll_def Let_def edit_view_current [OF assms(2)]
  using edit_view_key [OF assms(1)] by (simp only: if_True)

lemma handleScroll_edit:
  assumes "key \<in> numericKeys"
    and "navigationStack a = below @ [editFrame key v]"
  shows "navigationStack (handleScroll h d a)
           = below @ [editFrame key (clamp 1 (upperBound key) (v + d))]"
    and "focusSettings (handleScroll h d a) = focusSettings a"
  unfolding handleScroll_edit_unfold [OF assms]
  by (simp_all add: setNavigationStack_def replaceTop_def slice_to_minus_def assms(2)
      editFrame_def upperBound_def)

lemma scrolls_edit:
  assumes "key \<in> numericKeys"
  shows "navigationStack a = below @ [editFrame key v] \<Longrightarrow> 1 \<le> v \<Longrightarrow> v \<le> upperBound key \<Longrightarrow>
         \<exists>w. navigationStack (scrolls h ds a) = below @ [editFrame key w]
              \<and> focusSettings (scrolls h ds a) = focusSettings a
              \<and> 1 \<le> w \<and> w \<le> upperBound key"
proof (induction ds arbitrary: a v)
  case Nil
  then show ?case by (auto simp: scrolls_def)
next
  case (Cons d ds)
  let ?b = "handleScroll h d a"
  let ?w = "clamp 1 (upperBound key) (v + d)"
  have st: "navigationStack ?b = below @ [editFrame key ?w]"
    and fs: "focusSettings ?b = focusSettings a"
    using handleScroll_edit [OF assms Cons.prems(1)] by auto
  have rng: "1 \<le> ?w" "?w \<le> upperBound key"
    by (auto simp: clamp_def upperBound_def)
  have "scrolls h (d # ds) a = scrolls h ds ?b" by (simp add: scrolls_def)
  with Cons.IH [OF st rng] fs show ?case by simp
qed

lemma handleMenuClick_edit_unfold:
  assumes "key \<in> numericKeys"
    and "navigationStack a = below @ [editFrame key w]"
  shows "handleMenuClick h a
           = (let a3 = (updateFocusSetting key (NumV w) a)\<lparr>nowPlayingMode := VolumeMode\<rparr>
              in if length (navigationStack a) > 1
                 then setNavigationStack (slice_to_minus 1) a3 else a3)"
  unfolding handleMenuClick_def Let_def edit_view_current [OF assms(2)]
  using edit_view_key [OF assms(1)] by (simp only: if_True if_False)

lemma handleSelectClick_edit_unfold:
  assumes "key \<in> numericKeys"
    and "navigationStack a = below @ [editFrame key w]"
  shows "handleSelectClick h a
           = setNavigationStack (slice_to_minus 1) (updateFocusSetting key (NumV w) a)"
  unfolding handleSelectClick_def Let_def edit_view_current [OF assms(2)]
  using edit_view_key [OF assms(1)] by (simp only: if_True)

lemma numericSetting_setProperty:
  assumes "key \<in> numericKeys"
  shows "numericSetting key (setProperty key (NumV w) fs) = w"
  using assms unfolding numericKeys_def
  by (elim insertE emptyE) (simp_all add: numericSetting_def setProperty_def)

lemma commit_edit:
  assumes "key \<in> numericKeys"
    and "navigationStack a = below @ [editFrame key w]"
    and "focusSettings a = Some fs"
  shows "focusSettings (handleMenuClick h a) = Some (setProperty key (NumV w) fs)"
    and "focusSettings (handleSelectClick h a) = Some (setProperty key (NumV w) fs)"
  unfolding handleMenuClick_edit_unfold [OF assms(1,2)] handleSelectClick_edit_unfold [OF assms(1,2)]
  by (simp_all add: Let_def setNavigationStack_def updateFocusSetting_def assms(3))

text \<open>
  C10.  Let the top frame be the edit view of one of the four numeric focus settings, with
  a value between 1 and the bound of that setting (10 for \<open>longBreakInterval\<close>, 90 for the
  minute settings), and let settings be loaded.  After any sequence of scroll inputs the
  value shown lies between 1 and the bound, and both back/menu and select store exactly
  that value under the edited key.
\<close>

theorem committed_setting_in_range:
  assumes "key \<in> numericKeys"
    and "navigationStack a = below @ [editFrame key v]"
    and "focusSettings a = Some fs"
    and "1 \<le> v" and "v \<le> upperBound key"
  shows "1 \<le> activeIndex (currentView (scrolls h ds a))
       \<and> activeIndex (currentView (scrolls h ds a)) \<le> upperBound key
       \<and> (\<exists>fs'. focusSettings (handleMenuClick h (scrolls h ds a)) = Some fs'
                \<and> numericSetting key fs' = activeIndex (currentView (scrolls h ds a)))
       \<and> (\<exists>fs'. focusSettings (handleSelectClick h (scrolls h ds a)) = Some fs'
                \<and> numericSetting key fs' = activeIndex (currentView (scrolls h ds a)))"
proof -
  let ?b = "scrolls h ds a"
  obtain w where st: "navigationStack ?b = below @ [editFrame key w]"
    and fs: "focusSettings ?b = Some fs" and rng: "1 \<le> w" "w \<le> upperBound key"
    using scrolls_edit [OF assms(1,2,4,5), of h ds] assms(3) by auto
  have "activeIndex (currentView ?b) = w"
    by (rule edit_view_current [OF st])
  with commit_edit [OF assms(1) st fs] rng numericSetting_setProperty [OF assms(1)]
  show ?thesis by simp
qed

lemma editApp_fields:
  "''longBreakInterval'' \<in> numericKeys"
  "navigationStack (editApp key v)
     = [\<lparr>view_id = ''main'', activeIndex = 3\<rparr>, \<lparr>view_id = ''focus'', activeIndex = 3\<rparr>,
        \<lparr>view_id = ''focus-settings'', activeIndex = 3\<rparr>] @ [editFrame key v]"
  "focusSettings (editApp key v) = Some DEFAULT_FOCUS_SETTINGS"
  "upperBound ''longBreakInterval'' = 10"
  by (simp_all add: editApp_def loadedApp_def initializeApp_def initialApp_def Let_def
      numericKeys_def upperBound_def)

theorem committed_setting_in_range_witness:
  "''longBreakInterval'' \<in> numericKeys
   \<and> navigationStack (editApp ''longBreakInterval'' 4)
       = [\<lparr>view_id = ''main'', activeIndex = 3\<rparr>, \<lparr>view_id = ''focus'', activeIndex = 3\<rparr>,
          \<lparr>view_id = ''focus-settings'', activeIndex = 3\<rparr>] @ [editFrame ''longBreakInterval'' 4]
   \<and> focusSettings (editApp ''longBreakInterval'' 4) = Some DEFAULT_FOCUS_SETTINGS
   \<and> (1::int) \<le> 4 \<and> 4 \<le> upperBound ''longBreakInterval''
   \<and> activeIndex (currentView (scrolls demoHost [1, 1, 1, 1, 1, 1, 1, 1]
                                    (editApp ''longBreakInterval'' 4))) = 10
   \<and> activeIndex (currentView (scrolls demoHost [1, 1, 1, 1, 1, 1, 1, 1]
                                    (editApp ''longBreakInterval'' 4)))
       \<le> upperBound ''longBreakInterval''
   \<and> map_option longBreakInterval
         (focusSettings (handleMenuClick demoHost (scrolls demoHost [1, 1, 1, 1, 1, 1, 1, 1]
                                                     (editApp ''longBreakInterval'' 4)))) = Some 10
   \<and> map_option longBreakInterval
         (focusSettings (handleSelectClick demoHost (scrolls demoHost [1, 1, 1, 1, 1, 1, 1, 1]
                                                       (editApp ''longBreakInterval'' 4)))) = Some 10"
proof -
  have v: "(1::int) \<le> 4" "4 \<le> upperBound ''longBreakInterval''"
    by (simp_all add: editApp_fields(4))
  have e1: "activeIndex (currentView (scrolls demoHost [1, 1, 1, 1, 1, 1, 1, 1]
                                        (editApp ''longBreakInterval'' 4))) = 10"
    by (simp add: scrolls_def editApp_def editFrame_def clamp_def state_defs handler_defs Let_def)
  have e2: "map_option longBreakInterval
              (focusSettings (handleMenuClick demoHost (scrolls demoHost [1, 1, 1, 1, 1, 1, 1, 1]
                                                          (editApp ''longBreakInterval'' 4)))) = Some 10"
    by (simp add: scrolls_def editApp_def editFrame_def clamp_def state_defs handler_defs Let_def
        DEFAULT_FOCUS_SETTINGS_def setProperty_def)
  have e3: "map_option longBreakInterval
              (focusSettings (handleSelectClick demoHost (scrolls demoHost [1, 1, 1, 1, 1, 1, 1, 1]
                                                            (editApp ''longBreakInterval'' 4)))) = Some 10"
    by (simp add: scrolls_def editApp_def editFrame_def clamp_def state_defs handler_defs Let_def
        DEFAULT_FOCUS_SETTINGS_def setProperty_def)
  show ?thesis
    using editApp_fields(1) editApp_fields(2) [of "''longBreakInterval''" 4]
      editApp_fields(3) [of "''longBreakInterval''" 4] v e1 e2 e3
      committed_setting_in_range [OF editApp_fields(1)
        editApp_fields(2) [of "''longBreakInterval''" 4]
        editApp_fields(3) [of "''longBreakInterval''" 4] v,
        of demoHost "[1, 1, 1, 1, 1, 1, 1, 1]"]
    by blast
qed

subsection \<open>C9: short press against long press on the select button\<close>

lemma wheel_after_down:
  "wheelStep True SelectMouseDown w
     = Some (w\<lparr>timerRef := Some (nextTimerId w), scheduled := scheduled w @ [nextTimerId w],
               nextTimerId := nextTimerId w + 1\<rparr>)"
  by (simp add: wheelStep_def handleSelectMouseDown_def)

lemma wheel_fires_then_up:
  assumes "scheduled v = [t]" and "0 < t" and "timerRef v = Some t"
  shows "wheelRun True (map TimerFires ts @ [SelectMouseUp]) v = Some w \<Longrightarrow>
           (ts = [] \<and> w = v\<lparr>scheduled := [], timerRef := None, calls := calls v @ [OnSelectClick]\<rparr>)
         \<or> (ts = [t] \<and> w = v\<lparr>scheduled := [], calls := calls v @ [OnSelectLongPress], timerRef := None\<rparr>)"
proof (cases ts)
  case Nil
  assume "wheelRun True (map TimerFires ts @ [SelectMouseUp]) v = Some w"
  with Nil assms show ?thesis
    by (auto simp: wheelStep_def handleSelectMouseUp_def)
next
  case (Cons u us)
  assume r: "wheelRun True (map TimerFires ts @ [SelectMouseUp]) v = Some w"
  have u: "u = t"
    using r Cons assms(1) by (auto simp: wheelStep_def split: if_splits option.splits)
  let ?v1 = "timerCallback t v"
  have s1: "scheduled ?v1 = []" "timerRef ?v1 = None"
    using assms(1) by (simp_all add: timerCallback_def)
  have r1: "wheelRun True (map TimerFires us @ [SelectMouseUp]) ?v1 = Some w"
    using r Cons u assms(1) by (simp add: wheelStep_def)
  have "us = []"
  proof (cases us)
    case Nil then show ?thesis .
  next
    case (Cons x xs)
    with r1 s1 show ?thesis by (simp add: wheelStep_def)
  qed
  with r1 s1 have "w = ?v1"
    by (simp add: wheelStep_def handleSelectMouseUp_def)
  with \<open>us = []\<close> Cons u assms(1) show ?thesis
    by (simp add: timerCallback_def)
qed

lemma long_press_without_song_rows:
  assumes "\<forall>row \<in> set (fst (menuItems h a)). songId row = None"
  shows "handleSelectLongPress h a = None"
proof (cases "selectedMenuItem h a")
  case None
  then show ?thesis by (simp add: handleSelectLongPress_def)
next
  case (Some row)
  then have "row \<in> set (fst (menuItems h a))"
    by (auto simp: selectedMenuItem_def Let_def split: if_splits)
  with assms Some show ?thesis by (simp add: handleSelectLongPress_def)
qed

lemma main_menu_has_no_song_rows:
  assumes "view_id (currentView a) = ''main''"
  shows "\<forall>row \<in> set (fst (menuItems h a)). songId row = None"
  using assms by (simp add: menuItems_def Let_def mainMenu_def arrowItem_def plainItem_def)

lemma length_insert_by: "length (insert_by cmp v ws) = Suc (length ws)"
  by (induction ws) auto

lemma length_js_sort: "length (js_sort cmp vs) = length vs"
  by (induction vs) (auto simp: js_sort_def length_insert_by)

lemma songs_view_row:
  assumes "view_id (currentView a) = ''songs''"
    and "0 \<le> activeIndex (currentView a)" and "activeIndex (currentView a) < int (length (songs a))"
  shows "selectedMenuItem h a
           = Some (songItem (map song_id (js_sort (byTitle h) (songs a)))
                     (js_sort (byTitle h) (songs a) ! nat (activeIndex (currentView a))))"
proof -
  have m: "fst (menuItems h a) = songItems (js_sort (byTitle h) (songs a))"
    using assms(1) by (simp add: menuItems_def Let_def songsMenu_def startsWith_def)
  have n: "nat (activeIndex (currentView a)) < length (js_sort (byTitle h) (songs a))"
    using assms(2,3) by (simp add: length_js_sort)
  show ?thesis
    using assms(2,3) n
    by (simp add: selectedMenuItem_def Let_def m songItems_def length_js_sort)
qed

lemma addToOnTheGo_holds:
  "\<exists>pl \<in> set (addToOnTheGo k sid table). playlist_name pl = ''On-The-Go'' \<and> sid \<in> set (songIds pl)"
proof (cases "find (\<lambda>pl. playlist_name pl = ''On-The-Go'') table")
  case None
  then show ?thesis by (simp add: addToOnTheGo_def)
next
  case (Some otg)
  then have o: "otg \<in> set table" "playlist_name otg = ''On-The-Go''"
    by (auto simp: find_Some_iff)
  show ?thesis
  proof (cases "sid \<in> set (songIds otg)")
    case True
    with Some o show ?thesis by (auto simp: addToOnTheGo_def)
  next
    case False
    let ?f = "\<lambda>pl. if playlist_id pl = playlist_id otg
                    then pl\<lparr>songIds := songIds otg @ [sid]\<rparr> else pl"
    have "?f otg \<in> ?f ` set table" using o(1) by (rule imageI)
    then have mem: "?f otg \<in> set (map ?f table)" by simp
    have "playlist_name (?f otg) = ''On-The-Go'' \<and> sid \<in> set (songIds (?f otg))"
      using o(2) by simp
    with mem have "\<exists>pl \<in> set (map ?f table).
                     playlist_name pl = ''On-The-Go'' \<and> sid \<in> set (songIds pl)"
      by (rule bexI [rotated])
    then show ?thesis
      using Some False by (simp add: addToOnTheGo_def del: set_map)
  qed
qed

text \<open>
  C9, as amended.  Take a wheel with no long-press timer outstanding, and one press
  followed by its release with no other press in between.  A press and then the release
  invoke \<open>onSelectClick\<close>, the normal select, and nothing else; a press, the firing of the
  timer set by that press, and then the release invoke \<open>onSelectLongPress\<close> and nothing
  else, the release being a no-op; these are the only orders, so exactly one of the two
  handlers is invoked, and the wheel is without an outstanding timer afterwards.  The
  long-press handler quick-adds the song of the active row when that row carries a song id
  other than 0, which puts the id into the On-The-Go playlist when the transaction
  commits; on any other row (all rows of the main menu, for one) it does nothing, so a
  long press there performs neither action.  In the \<open>songs\<close> view every row carries the
  id of its song.
\<close>

theorem select_press_race:
  assumes "timerRef w0 = None" and "scheduled w0 = []" and "0 < nextTimerId w0"
  shows "(\<exists>w. wheelRun True [SelectMouseDown, SelectMouseUp] w0 = Some w
             \<and> calls w = calls w0 @ [OnSelectClick])
       \<and> (\<exists>w. wheelRun True [SelectMouseDown, TimerFires (nextTimerId w0), SelectMouseUp] w0 = Some w
             \<and> calls w = calls w0 @ [OnSelectLongPress])
       \<and> (\<forall>ts w. wheelRun True (SelectMouseDown # map TimerFires ts @ [SelectMouseUp]) w0 = Some w \<longrightarrow>
             timerRef w = None \<and> scheduled w = []
             \<and> ((ts = [] \<and> calls w = calls w0 @ [OnSelectClick])
                \<or> (ts = [nextTimerId w0] \<and> calls w = calls w0 @ [OnSelectLongPress])))
       \<and> performed h a OnSelectClick = [NormalSelect]
       \<and> performed h a OnSelectLongPress
           = (case selectedMenuItem h a of
                None \<Rightarrow> []
              | Some row \<Rightarrow>
                  (case songId row of
                     None \<Rightarrow> []
                   | Some sid \<Rightarrow> if sid = 0 then [] else [QuickAdd sid]))
       \<and> (view_id (currentView a) = ''main'' \<longrightarrow> performed h a OnSelectLongPress = [])
       \<and> (view_id (currentView a) = ''songs'' \<and> 0 \<le> activeIndex (currentView a)
            \<and> activeIndex (currentView a) < int (length (songs a)) \<longrightarrow>
            performed h a OnSelectLongPress
              = (let sid = song_id (js_sort (byTitle h) (songs a) ! nat (activeIndex (currentView a)))
                 in if sid = 0 then [] else [QuickAdd sid]))
       \<and> (\<exists>pl \<in> set (longPressTransaction True k sid table).
              playlist_name pl = ''On-The-Go'' \<and> sid \<in> set (songIds pl))
       \<and> longPressTransaction False k sid table = table"
proof (intro conjI allI impI)
  show "\<exists>w. wheelRun True [SelectMouseDown, SelectMouseUp] w0 = Some w
             \<and> calls w = calls w0 @ [OnSelectClick]"
    using assms by (simp add: wheelStep_def handleSelectMouseDown_def handleSelectMouseUp_def)
  show "\<exists>w. wheelRun True [SelectMouseDown, TimerFires (nextTimerId w0), SelectMouseUp] w0 = Some w
             \<and> calls w = calls w0 @ [OnSelectLongPress]"
    using assms
    by (simp add: wheelStep_def handleSelectMouseDown_def handleSelectMouseUp_def timerCallback_def)
  show "performed h a OnSelectClick = [NormalSelect]"
    by (simp add: performed_def)
  show "performed h a OnSelectLongPress
           = (case selectedMenuItem h a of
                None \<Rightarrow> []
              | Some row \<Rightarrow>
                  (case songId row of
                     None \<Rightarrow> []
                   | Some sid \<Rightarrow> if sid = 0 then [] else [QuickAdd sid]))"
    by (simp add: performed_def handleSelectLongPress_def split: option.splits)
  show "\<exists>pl \<in> set (longPressTransaction True k sid table).
              playlist_name pl = ''On-The-Go'' \<and> sid \<in> set (songIds pl)"
    using addToOnTheGo_holds [of k sid table] by (simp add: longPressTransaction_def)
  show "longPressTransaction False k sid table = table"
    by (simp add: longPressTransaction_def)
next
  fix ts w
  assume r: "wheelRun True (SelectMouseDown # map TimerFires ts @ [SelectMouseUp]) w0 = Some w"
  let ?v = "w0\<lparr>timerRef := Some (nextTimerId w0), scheduled := scheduled w0 @ [nextTimerId w0],
               nextTimerId := nextTimerId w0 + 1\<rparr>"
  have r': "wheelRun True (map TimerFires ts @ [SelectMouseUp]) ?v = Some w"
    using r by (simp add: wheel_after_down)
  have "scheduled ?v = [nextTimerId w0]" "timerRef ?v = Some (nextTimerId w0)"
    using assms by simp_all
  from wheel_fires_then_up [OF this(1) assms(3) this(2) r']
  show "timerRef w = None" and "scheduled w = []"
    and "(ts = [] \<and> calls w = calls w0 @ [OnSelectClick])
          \<or> (ts = [nextTimerId w0] \<and> calls w = calls w0 @ [OnSelectLongPress])"
    by auto
next
  assume "view_id (currentView a) = ''main''"
  then have "handleSelectLongPress h a = None"
    by (intro long_press_without_song_rows main_menu_has_no_song_rows)
  then show "performed h a OnSelectLongPress = []"
    by (simp add: performed_def)
next
  assume v: "view_id (currentView a) = ''songs'' \<and> 0 \<le> activeIndex (currentView a)
               \<and> activeIndex (currentView a) < int (length (songs a))"
  then have "selectedMenuItem h a
           = Some (songItem (map song_id (js_sort (byTitle h) (songs a)))
                     (js_sort (byTitle h) (songs a) ! nat (activeIndex (currentView a))))"
    by (intro songs_view_row) simp_all
  then show "performed h a OnSelectLongPress
              = (let sid = song_id (js_sort (byTitle h) (songs a) ! nat (activeIndex (currentView a)))
                 in if sid = 0 then [] else [QuickAdd sid])"
    by (simp add: performed_def handleSelectLongPress_def songItem_def Let_def)
qed

lemma songsViewApp_row:
  "view_id (currentView songsViewApp) = ''songs''"
  "activeIndex (currentView songsViewApp) = 0"
  "length (songs songsViewApp) = 2"
  "view_id (currentView loadedApp) = ''main''"
  by (simp_all add: songsViewApp_def currentView_def state_defs Let_def)

theorem select_press_race_witness:
  "timerRef idleWheel = None \<and> scheduled idleWheel = [] \<and> 0 < nextTimerId idleWheel
   \<and> wheelRun True [SelectMouseDown, SelectMouseUp] idleWheel
       = Some \<lparr>timerRef = None, scheduled = [], nextTimerId = 2, calls = [OnSelectClick]\<rparr>
   \<and> wheelRun True (SelectMouseDown # map TimerFires [1] @ [SelectMouseUp]) idleWheel
       = Some \<lparr>timerRef = None, scheduled = [], nextTimerId = 2, calls = [OnSelectLongPress]\<rparr>
   \<and> wheelRun True [SelectMouseDown, SelectMouseUp, TimerFires 1] idleWheel = None
   \<and> view_id (currentView loadedApp) = ''main''
   \<and> performed demoHost loadedApp OnSelectLongPress = []
   \<and> view_id (currentView songsViewApp) = ''songs''
   \<and> 0 \<le> activeIndex (currentView songsViewApp)
   \<and> activeIndex (currentView songsViewApp) < int (length (songs songsViewApp))
   \<and> performed demoHost songsViewApp OnSelectLongPress = [QuickAdd 2]
   \<and> performed demoHost songsViewApp OnSelectClick = [NormalSelect]"
proof -
  have i: "timerRef idleWheel = None" "scheduled idleWheel = []" "0 < nextTimerId idleWheel"
    by (simp_all add: idleWheel_def)
  have r: "wheelRun True (SelectMouseDown # map TimerFires [1] @ [SelectMouseUp]) idleWheel
             = Some \<lparr>timerRef = None, scheduled = [], nextTimerId = 2, calls = [OnSelectLongPress]\<rparr>"
    by (simp add: idleWheel_def wheelStep_def handleSelectMouseDown_def handleSelectMouseUp_def
        timerCallback_def)
  have w: "wheelRun True [SelectMouseDown, SelectMouseUp] idleWheel
             = Some \<lparr>timerRef = None, scheduled = [], nextTimerId = 2, calls = [OnSelectClick]\<rparr>"
    "wheelRun True [SelectMouseDown, SelectMouseUp, TimerFires 1] idleWheel = None"
    by (simp_all add: idleWheel_def wheelStep_def handleSelectMouseDown_def handleSelectMouseUp_def
        timerCallback_def)
  have s: "song_id (js_sort (byTitle demoHost) (songs songsViewApp) ! nat 0) = 2"
    by (simp add: songsViewApp_def state_defs js_sort_def byTitle_def defaultCompare_def Let_def)
  note t = select_press_race [OF i, of demoHost loadedApp 0 0 "[]"]
  note u = select_press_race [OF i, of demoHost songsViewApp 0 0 "[]"]
  have m: "performed demoHost loadedApp OnSelectLongPress = []"
    using t songsViewApp_row(4) by blast
  have q: "performed demoHost songsViewApp OnSelectLongPress = [QuickAdd 2]"
    using u [THEN conjunct2, THEN conjunct2, THEN conjunct2, THEN conjunct2, THEN conjunct2,
        THEN conjunct2, THEN conjunct1]
      songsViewApp_row(1,2,3) s
    by (simp add: Let_def)
  have c: "performed demoHost songsViewApp OnSelectClick = [NormalSelect]"
    using u by blast
  show ?thesis
    using i r w m q c songsViewApp_row by simp
qed

text \<open>
  Against C9 as stated.  In the main menu, whose rows carry no song id, a press held until
  the timer fires and then released invokes the long-press handler only, and that handler
  does nothing: neither action is performed.  And when a second press arrives before the
  first is released (the timer of the first press is then no longer the one the release
  clears), the release invokes the normal select and the first timer the long-press
  handler: in the \<open>songs\<close> view both actions are performed.
\<close>

theorem long_press_performs_neither_or_both:
  "view_id (currentView loadedApp) = ''main''
   \<and> wheelRun True [SelectMouseDown, TimerFires 1, SelectMouseUp] idleWheel
       = Some \<lparr>timerRef = None, scheduled = [], nextTimerId = 2, calls = [OnSelectLongPress]\<rparr>
   \<and> concat (map (performed demoHost loadedApp) [OnSelectLongPress]) = []
   \<and> wheelRun True [SelectMouseDown, SelectMouseDown, SelectMouseUp, TimerFires 1] idleWheel
       = Some \<lparr>timerRef = None, scheduled = [], nextTimerId = 3,
               calls = [OnSelectClick, OnSelectLongPress]\<rparr>
   \<and> concat (map (performed demoHost songsViewApp) [OnSelectClick, OnSelectLongPress])
       = [NormalSelect, QuickAdd 2]"
  by (simp add: idleWheel_def wheelStep_def handleSelectMouseDown_def handleSelectMouseUp_def
      timerCallback_def performed_def handleSelectLongPress_def selectedMenuItem_def
      songsViewApp_def currentView_def startsWith_def state_defs menu_defs defaultCompare_def
      Let_def)

subsection \<open>C2: computing the menu\<close>

text \<open>In every view but \<open>songs\<close> the computation leaves the \<open>songs\<close> array as it was.\<close>

lemma menuItems_keeps_songs:
  "view_id (currentView a) \<noteq> ''songs'' \<Longrightarrow> snd (menuItems h a) = songs a"
  by (simp add: menuItems_def Let_def)

text \<open>
  C2 at its failing input.  The library holds the songs titled \<open>b\<close> and \<open>a\<close>, in this
  order, and the collation puts \<open>a\<close> before \<open>b\<close>.  Computing the menu of the \<open>songs\<close>
  view yields the rows \<open>a\<close>, \<open>b\<close> and leaves the \<open>songs\<close> array itself reordered to
  \<open>a\<close>, \<open>b\<close>; so does walking there from the main menu (\<open>Music\<close>, then \<open>Songs\<close>).
\<close>

theorem menu_sorts_songs_in_place:
  assumes "0 < localeCompare h ''b'' ''a''"
  shows "view_id (currentView songsViewApp) = ''songs''
       \<and> map title (songs songsViewApp) = [''b'', ''a'']
       \<and> map label (fst (menuItems h songsViewApp)) = [''a'', ''b'']
       \<and> map title (snd (menuItems h songsViewApp)) = [''a'', ''b'']
       \<and> map title (songs loadedApp) = [''b'', ''a'']
       \<and> map_option (map title \<circ> songs)
            (run h [Scroll 1, SelectClick, Scroll 1, SelectClick] loadedApp) = Some [''a'', ''b'']"
  using assms
  by (simp add: songsViewApp_def state_defs menu_defs handler_defs Let_def)

theorem menu_sorts_songs_in_place_witness:
  "0 < localeCompare demoHost ''b'' ''a''
   \<and> map title (songs songsViewApp) = [''b'', ''a'']
   \<and> map title (snd (menuItems demoHost songsViewApp)) = [''a'', ''b'']"
proof -
  have c: "0 < localeCompare demoHost ''b'' ''a''"
    by (simp add: demoHost_def defaultCompare_def)
  from c menu_sorts_songs_in_place [OF c] show ?thesis by simp
qed

subsection \<open>C4: the navigation stack\<close>

text \<open>
  The back button keeps at least one frame: it removes the top frame only when there is
  more than one.
\<close>

lemma handleMenuClick_stack:
  "navigationStack (handleMenuClick h a)
     = (if length (navigationStack a) > 1 then butlast (navigationStack a) else navigationStack a)"
  by (simp add: handleMenuClick_def Let_def setNavigationStack_def slice_to_minus_def
      updateFocusSetting_def setBounceGame_def butlast_conv_take split: option.splits)

text \<open>
  C4 at its failing inputs.  First run: after \<open>Yes, Reset All Stats\<close> has been chosen
  and the back button pressed twice, the stack is main, focus; when the action then
  resumes after its \<open>await\<close>s, its \<open>s.slice(0, -2)\<close> leaves the stack empty, and no
  further event is handled.  Second run: \<open>handleClearLibrary\<close> finds the library empty
  and sets a timeout of two seconds to leave the view by \<open>s.slice(0, -1)\<close>; the user has
  gone back to the main menu by then, and the callback leaves the stack empty.
\<close>

theorem unguarded_pops_empty_stack:
  "map_option navigationStack (run demoHost (butlast resetTrace) loadedApp)
     = Some [\<lparr>view_id = ''main'', activeIndex = 3\<rparr>, \<lparr>view_id = ''focus'', activeIndex = 3\<rparr>]
   \<and> map_option navigationStack (run demoHost resetTrace loadedApp) = Some []
   \<and> run demoHost (resetTrace @ [MenuClick]) loadedApp = None
   \<and> map_option (map view_id \<circ> navigationStack) (run demoHost (take 10 clearTrace) emptyApp)
     = Some [''main'', ''settings'', ''library-management'', ''clearing-library'']
   \<and> map_option navigationStack (run demoHost (butlast clearTrace) emptyApp)
     = Some [\<lparr>view_id = ''main'', activeIndex = 5\<rparr>]
   \<and> map_option navigationStack (run demoHost clearTrace emptyApp) = Some []"
  by (simp add: resetTrace_def clearTrace_def state_defs menu_defs handler_defs Let_def)

subsection \<open>C6: one frame of the Bounce game\<close>











end
